theory Spec2Isabelle
  imports Main "HOL-Library.Char_ord" "HOL-Library.List_Lexorder"
begin

section \<open>JavaScript values read from a JSON request body\<close>

text \<open>
  The handlers read fields of the parsed JSON body and pass them, untyped, to the
  validation helpers.  A field is modelled as a JSON scalar: absent (\<open>undefined\<close>),
  \<open>null\<close>, a boolean, a number or a string.  Numbers are integers (a JSON integer
  literal of magnitude below \<open>10^21\<close>, which \<open>ToString\<close> prints as its decimal
  digits); strings are lists of 8-bit code units.  Nested arrays and objects as field
  values are not modelled.
\<close>

datatype jsval = JUndefined | JNull | JBool bool | JNum int | JStr string

fun truthy :: "jsval \<Rightarrow> bool" where
  "truthy JUndefined = False"
| "truthy JNull = False"
| "truthy (JBool b) = b"
| "truthy (JNum n) = (n \<noteq> 0)"
| "truthy (JStr s) = (s \<noteq> [])"

text \<open>\<open>a || b\<close> on values.\<close>

definition js_or :: "jsval \<Rightarrow> jsval \<Rightarrow> jsval" where
  "js_or a b = (if truthy a then a else b)"

subsection \<open>Strings: \<open>trim\<close>, \<open>substring\<close>, \<open>replace\<close>, regular expressions\<close>

definition isWhiteSpace :: "char \<Rightarrow> bool" where
  "isWhiteSpace c =
     (c = CHR 0x09 \<or> c = CHR 0x0A \<or> c = CHR 0x0B \<or> c = CHR 0x0C \<or> c = CHR 0x0D
      \<or> c = CHR 0x20 \<or> c = CHR 0xA0)"

definition trim :: "string \<Rightarrow> string" where
  "trim s = rev (dropWhile isWhiteSpace (rev (dropWhile isWhiteSpace s)))"

definition substring0 :: "nat \<Rightarrow> string \<Rightarrow> string" where
  "substring0 n s = take n s"

definition replaceAll :: "char \<Rightarrow> string \<Rightarrow> string \<Rightarrow> string" where
  "replaceAll c r s = concat (map (\<lambda>x. if x = c then r else [x]) s)"

definition toLower :: "char \<Rightarrow> char" where
  "toLower c = (let n = (of_char c :: nat) in if 65 \<le> n \<and> n \<le> 90 then char_of (n + 32) else c)"

text \<open>
  \<open>/lit/i.test(s)\<close> for a lower-case literal: some position of \<open>s\<close> starts with the
  literal, letters compared case-insensitively.
\<close>

fun matchesAt :: "string \<Rightarrow> string \<Rightarrow> bool" where
  "matchesAt [] s = True"
| "matchesAt (p # ps) [] = False"
| "matchesAt (p # ps) (c # cs) = (p = toLower c \<and> matchesAt ps cs)"

fun testCI :: "string \<Rightarrow> string \<Rightarrow> bool" where
  "testCI p [] = matchesAt p []"
| "testCI p (c # cs) = (matchesAt p (c # cs) \<or> testCI p cs)"

text \<open>
  \<open>/<.*>/.test(s)\<close>: a \<open><\<close> followed, before the next line terminator, by a \<open>>\<close>
  (the dot matches no line terminator).
\<close>

fun closesOnLine :: "string \<Rightarrow> bool" where
  "closesOnLine [] = False"
| "closesOnLine (c # cs) =
     (if c = CHR ''>'' then True
      else if c = CHR 0x0A \<or> c = CHR 0x0D then False
      else closesOnLine cs)"

fun testTag :: "string \<Rightarrow> bool" where
  "testTag [] = False"
| "testTag (c # cs) = ((c = CHR ''<'' \<and> closesOnLine cs) \<or> testTag cs)"

subsection \<open>\<open>parseInt\<close> and \<open>Math.ceil\<close>\<close>

definition digitOf :: "char \<Rightarrow> nat option" where
  "digitOf c =
     (let n = (of_char c :: nat) in
      if 48 \<le> n \<and> n \<le> 57 then Some (n - 48)
      else if 97 \<le> n \<and> n \<le> 122 then Some (n - 87)
      else if 65 \<le> n \<and> n \<le> 90 then Some (n - 55)
      else None)"

definition isDigitIn :: "nat \<Rightarrow> char \<Rightarrow> bool" where
  "isDigitIn radix c = (case digitOf c of None \<Rightarrow> False | Some d \<Rightarrow> d < radix)"

definition digitsValue :: "nat \<Rightarrow> string \<Rightarrow> nat" where
  "digitsValue radix ds = foldl (\<lambda>a c. a * radix + the (digitOf c)) 0 ds"

text \<open>
  \<open>parseInt(s)\<close> with no radix argument: leading white space is skipped, a sign is
  read, a \<open>0x\<close> prefix selects radix 16, and the longest prefix of digits is the value;
  with no digit the result is \<open>NaN\<close>, here \<open>None\<close>.  (\<open>the\<close> in \<open>digitsValue\<close> is
  applied to characters that passed \<open>isDigitIn\<close> only.)
\<close>

definition parseIntStr :: "string \<Rightarrow> int option" where
  "parseIntStr s =
     (let s1 = dropWhile isWhiteSpace s;
          neg = (s1 \<noteq> [] \<and> hd s1 = CHR ''-'');
          s2 = (if s1 \<noteq> [] \<and> (hd s1 = CHR ''-'' \<or> hd s1 = CHR ''+'') then tl s1 else s1);
          hex = (length s2 \<ge> 2 \<and> hd s2 = CHR ''0'' \<and> (s2 ! 1 = CHR ''x'' \<or> s2 ! 1 = CHR ''X''));
          radix = (if hex then 16 else 10);
          s3 = (if hex then drop 2 s2 else s2);
          ds = takeWhile (isDigitIn radix) s3
      in if ds = [] then None
         else Some ((if neg then - 1 else 1) * int (digitsValue radix ds)))"

text \<open>
  \<open>parseInt(v)\<close> converts \<open>v\<close> to a string first: \<open>undefined\<close>, \<open>null\<close>, \<open>true\<close> and
  \<open>false\<close> print as words with no leading digit, an integer prints as its decimal
  digits, which are read back.
\<close>

fun parseInt :: "jsval \<Rightarrow> int option" where
  "parseInt (JStr s) = parseIntStr s"
| "parseInt (JNum n) = Some n"
| "parseInt (JBool b) = None"
| "parseInt JNull = None"
| "parseInt JUndefined = None"

text \<open>\<open>Math.ceil(x / 1000)\<close> for an integer \<open>x\<close>.\<close>

definition ceilDiv1000 :: "int \<Rightarrow> int" where
  "ceilDiv1000 x = - ((- x) div 1000)"

section \<open>Responses\<close>

text \<open>
  \<open>c.json(obj, status)\<close>: the status and the fields of the JSON object, in order.
  A middleware either answers or calls \<open>next()\<close>; both come with the response headers
  it has set (their values kept as numbers).
\<close>

datatype jv = JvNum int | JvStr string | JvStrs "string list"

datatype response = Response (status: nat) (payload: "(string \<times> jv) list")

datatype mw = Respond "(string \<times> int) list" response | Next "(string \<times> int) list"

definition field :: "response \<Rightarrow> string \<Rightarrow> jv option" where
  "field r k = map_of (payload r) k"

definition replyStatus :: "mw \<Rightarrow> nat option" where
  "replyStatus m = (case m of Respond h r \<Rightarrow> Some (status r) | Next h \<Rightarrow> None)"

definition replyField :: "mw \<Rightarrow> string \<Rightarrow> jv option" where
  "replyField m k = (case m of Respond h r \<Rightarrow> field r k | Next h \<Rightarrow> None)"

section \<open>The rate limiter with temporary blocks (\<open>part_001\<close>)\<close>

record RateLimitEntry =
  count :: int
  windowStart :: int
  blocked :: "bool option"
  blockUntil :: "int option"

type_synonym rateLimitStore = "string \<Rightarrow> RateLimitEntry option"

text \<open>The \<open>{ max, window }\<close> objects of the configuration.\<close>

record limits =
  cfg_max :: int
  cfg_window :: int

definition WINDOW_MS :: int where "WINDOW_MS = 60 * 1000"
definition MAX_REQUESTS :: int where "MAX_REQUESTS = 30"
definition SUSPICIOUS_THRESHOLD :: int where "SUSPICIOUS_THRESHOLD = 100"
definition BLOCK_DURATION :: int where "BLOCK_DURATION = 15 * 60 * 1000"

definition STRICT_ENDPOINTS :: "(string \<times> limits) list" where
  "STRICT_ENDPOINTS =
     [(''/api/predictions'', \<lparr>cfg_max = 5, cfg_window = 60 * 1000\<rparr>),
      (''/api/predictions/*/verify'', \<lparr>cfg_max = 10, cfg_window = 60 * 1000\<rparr>)]"

text \<open>
  \<open>entry.blockUntil && now > entry.blockUntil\<close>: an optional number is truthy when it
  is present and not zero.
\<close>

definition blockExpired :: "RateLimitEntry \<Rightarrow> int \<Rightarrow> bool" where
  "blockExpired entry now =
     (case blockUntil entry of None \<Rightarrow> False | Some b \<Rightarrow> b \<noteq> 0 \<and> now > b)"

definition cleanupRateLimit :: "int \<Rightarrow> rateLimitStore \<Rightarrow> rateLimitStore" where
  "cleanupRateLimit now store =
     (\<lambda>key. case store key of
        None \<Rightarrow> None
      | Some entry \<Rightarrow>
          if blockExpired entry now then None
          else if now - windowStart entry > WINDOW_MS * 2 then None
          else Some entry)"

text \<open>
  The client address: the first non-empty of three request headers, else \<open>unknown\<close>.
\<close>

definition header_or :: "(string \<Rightarrow> string option) \<Rightarrow> string \<Rightarrow> string \<Rightarrow> string" where
  "header_or hdrs name dflt =
     (case hdrs name of None \<Rightarrow> dflt | Some v \<Rightarrow> if v = [] then dflt else v)"

definition clientIP :: "(string \<Rightarrow> string option) \<Rightarrow> string" where
  "clientIP hdrs =
     header_or hdrs ''CF-Connecting-IP''
       (header_or hdrs ''X-Forwarded-For'' (header_or hdrs ''X-Real-IP'' ''unknown''))"

definition rateLimitKey :: "string option \<Rightarrow> (string \<Rightarrow> string option) \<Rightarrow> string" where
  "rateLimitKey endpoint hdrs =
     clientIP hdrs @ '':'' @
       (case endpoint of None \<Rightarrow> ''global'' | Some e \<Rightarrow> if e = [] then ''global'' else e)"

definition configFor :: "string option \<Rightarrow> limits" where
  "configFor endpoint =
     (let dflt = \<lparr>cfg_max = MAX_REQUESTS, cfg_window = WINDOW_MS\<rparr> in
      case endpoint of
        None \<Rightarrow> dflt
      | Some e \<Rightarrow>
          if e = [] then dflt
          else (case map_of STRICT_ENDPOINTS e of None \<Rightarrow> dflt | Some c \<Rightarrow> c))"

text \<open>
  \<open>entry?.blocked && entry.blockUntil && now < entry.blockUntil\<close>: the end of the block
  when one is set and still ahead, else nothing.
\<close>

definition activeBlock :: "RateLimitEntry option \<Rightarrow> int \<Rightarrow> int option" where
  "activeBlock entry now =
     (case entry of
        None \<Rightarrow> None
      | Some e \<Rightarrow>
          if blocked e = Some True then
            (case blockUntil e of
               None \<Rightarrow> None
             | Some b \<Rightarrow> if b \<noteq> 0 \<and> now < b then Some b else None)
          else None)"

definition freshEntry :: "int \<Rightarrow> RateLimitEntry" where
  "freshEntry now = \<lparr>count = 1, windowStart = now, blocked = Some False, blockUntil = None\<rparr>"

text \<open>
  ``Initialize or update rate limit entry'': a first request, or one that finds the
  window expired, starts a window with count 1; any other increments the count.
\<close>

definition advance :: "limits \<Rightarrow> RateLimitEntry option \<Rightarrow> int \<Rightarrow> RateLimitEntry" where
  "advance config entry now =
     (case entry of
        None \<Rightarrow> freshEntry now
      | Some e \<Rightarrow>
          if now - windowStart e > cfg_window config then freshEntry now
          else e\<lparr>count := count e + 1\<rparr>)"

text \<open>
  One request through the middleware returned by \<open>rateLimiter(endpoint)\<close>.  \<open>now\<close> is
  \<open>Date.now()\<close> and \<open>prune\<close> is the outcome of \<open>Math.random() < 0.1\<close>.  The store is
  returned as the request leaves it.
\<close>

definition rateLimiter ::
  "string option \<Rightarrow> (string \<Rightarrow> string option) \<Rightarrow> int \<Rightarrow> bool \<Rightarrow> rateLimitStore
     \<Rightarrow> mw \<times> rateLimitStore" where
  "rateLimiter endpoint hdrs now prune store =
     (let key = rateLimitKey endpoint hdrs;
          store0 = (if prune then cleanupRateLimit now store else store);
          entry = store0 key
      in case activeBlock entry now of
           Some until \<Rightarrow>
             (Respond [] (Response 429
                [(''error'', JvStr ''Too many requests. Please try again later.''),
                 (''retryAfter'', JvNum (ceilDiv1000 (until - now)))]),
              store0)
         | None \<Rightarrow>
             let config = configFor endpoint;
                 entry1 = advance config entry now;
                 store1 = store0(key \<mapsto> entry1)
             in if count entry1 > cfg_max config then
                  if count entry1 > SUSPICIOUS_THRESHOLD then
                    (Respond [] (Response 429
                       [(''error'',
                           JvStr ''Suspicious activity detected. Access temporarily blocked.''),
                        (''retryAfter'', JvNum (BLOCK_DURATION div 1000))]),
                     store1(key \<mapsto>
                       entry1\<lparr>blocked := Some True, blockUntil := Some (now + BLOCK_DURATION)\<rparr>))
                  else
                    (Respond [] (Response 429
                       [(''error'', JvStr ''Rate limit exceeded. Please slow down.''),
                        (''limit'', JvNum (cfg_max config)),
                        (''window'', JvNum (cfg_window config div 1000)),
                        (''retryAfter'',
                           JvNum (ceilDiv1000 (windowStart entry1 + cfg_window config - now)))]),
                     store1)
                else
                  (Next
                     [(''X-RateLimit-Limit'', cfg_max config),
                      (''X-RateLimit-Remaining'', cfg_max config - count entry1),
                      (''X-RateLimit-Reset'', ceilDiv1000 (windowStart entry1 + cfg_window config))],
                   store1))"

text \<open>
  A run of the process: requests reach the limiters one after the other and share the
  store.  Each request names the limiter it goes through (its endpoint) and comes with
  its headers, its clock reading and its pruning draw; each reply is kept with them.
\<close>

record request =
  req_endpoint :: "string option"
  req_headers :: "string \<Rightarrow> string option"
  req_now :: int
  req_prune :: bool

fun serve :: "request list \<Rightarrow> rateLimitStore \<Rightarrow> (request \<times> mw) list \<times> rateLimitStore" where
  "serve [] store = ([], store)"
| "serve (q # rest) store =
     (let (r, store1) =
            rateLimiter (req_endpoint q) (req_headers q) (req_now q) (req_prune q) store;
          (rs, store2) = serve rest store1
      in ((q, r) # rs, store2))"

text \<open>
  Every window in the store started at or before \<open>t\<close>: what a clock that never runs
  backwards leaves behind.
\<close>

definition storeBefore :: "int \<Rightarrow> rateLimitStore \<Rightarrow> bool" where
  "storeBefore t store = (\<forall>k e. store k = Some e \<longrightarrow> windowStart e \<le> t)"

section \<open>The rate limiter of \<open>security.ts\<close>\<close>

record RateRecord =
  rcount :: int
  resetTime :: int

record RateLimitConfig =
  windowMs :: int
  maxRequests :: int

text \<open>
  The key is what \<open>keyGenerator\<close> returns for the request.  A rejection carries the
  \<open>Retry-After\<close> header (seconds) beside the \<open>retryAfter\<close> field (milliseconds).
\<close>

definition rateLimiter_ts ::
  "RateLimitConfig \<Rightarrow> string \<Rightarrow> int \<Rightarrow> (string \<Rightarrow> RateRecord option)
     \<Rightarrow> mw \<times> (string \<Rightarrow> RateRecord option)" where
  "rateLimiter_ts config key now store =
     (let record0 =
            (case store key of
               None \<Rightarrow> \<lparr>rcount = 0, resetTime = now + windowMs config\<rparr>
             | Some r \<Rightarrow>
                 if resetTime r \<le> now then \<lparr>rcount = 0, resetTime = now + windowMs config\<rparr>
                 else r);
          record1 = record0\<lparr>rcount := rcount record0 + 1\<rparr>;
          store1 = store(key \<mapsto> record1);
          headers =
            [(''X-RateLimit-Limit'', maxRequests config),
             (''X-RateLimit-Remaining'', max 0 (maxRequests config - rcount record1)),
             (''X-RateLimit-Reset'', resetTime record1)]
      in if rcount record1 > maxRequests config then
           (Respond (headers @ [(''Retry-After'', ceilDiv1000 (resetTime record1 - now))])
              (Response 429
                 [(''error'', JvStr ''Rate limit exceeded''),
                  (''message'', JvStr ''Too many requests. Please try again later.''),
                  (''retryAfter'', JvNum (resetTime record1 - now))]),
            store1)
         else (Next headers, store1))"

definition postRateLimiter :: RateLimitConfig where
  "postRateLimiter = \<lparr>windowMs = 10 * 60 * 1000, maxRequests = 5\<rparr>"

section \<open>Bot checks and input validation (\<open>part_001\<close>)\<close>

text \<open>Honeypot fields should always be empty: \<open>!honeypotValue || honeypotValue === ''\<close>.\<close>

definition validateHoneypot :: "jsval \<Rightarrow> bool" where
  "validateHoneypot honeypotValue = (\<not> truthy honeypotValue \<or> honeypotValue = JStr [])"

definition validateCaptcha :: "jsval \<Rightarrow> jsval \<Rightarrow> bool" where
  "validateCaptcha userAnswer expectedAnswer =
     (let userNum = parseInt userAnswer;
          expectedNum = parseInt expectedAnswer
      in if userNum = None \<or> expectedNum = None then False
         else userNum = expectedNum)"

definition PREDICTION_TEXT_MAX :: nat where "PREDICTION_TEXT_MAX = 2000"
definition PREDICTOR_NAME_MAX :: nat where "PREDICTOR_NAME_MAX = 100"
definition DESCRIPTION_MAX :: nat where "DESCRIPTION_MAX = 500"
definition NOTES_MAX :: nat where "NOTES_MAX = 1000"

definition SUSPICIOUS_PATTERNS :: "(string \<Rightarrow> bool) list" where
  "SUSPICIOUS_PATTERNS =
     [testCI ''script'', testTag, testCI ''javascript:'', testCI ''vbscript:'',
      testCI ''onload'', testCI ''onclick'', testCI ''eval('', testCI ''expression('']"

definition escapeHtml :: "string \<Rightarrow> string" where
  "escapeHtml s =
     replaceAll (CHR 0x27) ''&#039;''
       (replaceAll (CHR 0x22) ''&quot;''
          (replaceAll CHR ''>'' ''&gt;''
             (replaceAll CHR ''<'' ''&lt;''
                (replaceAll CHR ''&'' ''&amp;'' s))))"

text \<open>
  An exception thrown inside a handler; the handlers catch it and answer 500.
\<close>

datatype jsError = TypeError

type_synonym jsobj = "string \<Rightarrow> jsval"

text \<open>
  \<open>sanitizeString(str, maxLength, fieldName)\<close>, with the \<open>errors\<close> array it pushes to
  passed in and returned.  A truthy value that is not a string (a non-zero number,
  \<open>true\<close>) prints as digits or as the word \<open>true\<close>, which no pattern matches, and has no
  \<open>trim\<close> method: the call \<open>str.trim()\<close> throws.
\<close>

definition sanitizeString ::
  "jsval \<Rightarrow> nat \<Rightarrow> string \<Rightarrow> string list \<Rightarrow> jsError + (string \<times> string list)" where
  "sanitizeString str maxLength fieldName errors =
     (if \<not> truthy str then Inr ([], errors)
      else case str of
        JStr s \<Rightarrow>
          if list_ex (\<lambda>pattern. pattern s) SUSPICIOUS_PATTERNS
          then Inr ([], errors @ [fieldName @ '' contains potentially malicious content''])
          else Inr (escapeHtml (substring0 maxLength (trim s)), errors)
      | _ \<Rightarrow> Inl TypeError)"

text \<open>
  The platform's parsers, which the repository calls and does not define:
  \<open>Date.parse\<close> on a string (the time value in milliseconds, or nothing for an invalid
  date) and \<open>new URL(s).protocol\<close> (nothing when the constructor throws).
\<close>

record platform =
  dateParse :: "string \<Rightarrow> int option"
  urlProtocol :: "string \<Rightarrow> string option"

text \<open>
  \<open>validateURL(url)\<close>.  A truthy value that is not a string prints as digits or as
  \<open>true\<close>, which is no absolute URL: the constructor throws and the result is false.
\<close>

definition validateURL :: "platform \<Rightarrow> jsval \<Rightarrow> bool" where
  "validateURL P url =
     (if \<not> truthy url then True
      else case url of
        JStr s \<Rightarrow>
          (case urlProtocol P s of
             None \<Rightarrow> False
           | Some protocol \<Rightarrow> protocol \<in> set [''http:'', ''https:''])
      | _ \<Rightarrow> False)"

text \<open>
  The time value of \<open>new Date(v)\<close>, nothing standing for \<open>NaN\<close>: a string is parsed, a
  number is the time value itself when within the range of dates, \<open>null\<close> and booleans
  convert to 0 and 1, and \<open>undefined\<close> gives an invalid date.
\<close>

definition newDate :: "platform \<Rightarrow> jsval \<Rightarrow> int option" where
  "newDate P v =
     (case v of
        JStr s \<Rightarrow> dateParse P s
      | JNum n \<Rightarrow> if \<bar>n\<bar> \<le> 8640000000000000 then Some n else None
      | JBool b \<Rightarrow> Some (if b then 1 else 0)
      | JNull \<Rightarrow> Some 0
      | JUndefined \<Rightarrow> None)"

text \<open>
  The body of \<open>validateInput\<close> runs statement by statement over the pair of the
  \<open>errors\<close> array and the \<open>sanitized\<close> object; a statement that throws ends the run.
\<close>

type_synonym vstate = "string list \<times> jsobj"

definition push :: "string \<Rightarrow> vstate \<Rightarrow> vstate" where
  "push msg st = (fst st @ [msg], snd st)"

definition pushIf :: "bool \<Rightarrow> string \<Rightarrow> vstate \<Rightarrow> vstate" where
  "pushIf c msg st = (if c then push msg st else st)"

definition assign :: "string \<Rightarrow> jsval \<Rightarrow> vstate \<Rightarrow> vstate" where
  "assign k v st = (fst st, (snd st)(k := v))"

definition always :: "(vstate \<Rightarrow> vstate) \<Rightarrow> vstate \<Rightarrow> jsError + vstate" where
  "always f st = Inr (f st)"

text \<open>
  \<open>if (!v?.trim()) errors.push(msg)\<close>: \<open>undefined\<close> and \<open>null\<close> short-circuit to a
  missing value; a string is missing when it trims to nothing; any other value has no
  \<open>trim\<close> method and the call throws.
\<close>

definition requireTrimmed :: "jsval \<Rightarrow> string \<Rightarrow> vstate \<Rightarrow> jsError + vstate" where
  "requireTrimmed v msg st =
     (case v of
        JUndefined \<Rightarrow> Inr (push msg st)
      | JNull \<Rightarrow> Inr (push msg st)
      | JStr s \<Rightarrow> Inr (pushIf (trim s = []) msg st)
      | _ \<Rightarrow> Inl TypeError)"

text \<open>\<open>sanitized[k] = sanitizeString(v, maxLength, fieldName)\<close>.\<close>

definition sanitizeInto ::
  "string \<Rightarrow> jsval \<Rightarrow> nat \<Rightarrow> string \<Rightarrow> vstate \<Rightarrow> jsError + vstate" where
  "sanitizeInto k v maxLength fieldName st =
     (case sanitizeString v maxLength fieldName (fst st) of
        Inl e \<Rightarrow> Inl e
      | Inr (s, errors) \<Rightarrow> Inr (errors, (snd st)(k := JStr s)))"

definition runSteps :: "(vstate \<Rightarrow> jsError + vstate) list \<Rightarrow> vstate \<Rightarrow> jsError + vstate" where
  "runSteps steps st =
     foldl (\<lambda>acc step. case acc of Inl e \<Rightarrow> Inl e | Inr s \<Rightarrow> step s) (Inr st) steps"

definition validCategories :: "string list" where
  "validCategories =
     [''general'', ''technology'', ''economics'', ''politics'', ''climate'', ''sports'',
      ''health'', ''society'', ''science'']"

definition validOutcomes :: "string list" where
  "validOutcomes = [''correct'', ''incorrect'', ''partially_correct'', ''too_early'', ''unprovable'']"

text \<open>\<open>list.includes(v)\<close> for a list of strings: only an equal string is included.\<close>

definition includesStr :: "string list \<Rightarrow> jsval \<Rightarrow> bool" where
  "includesStr xs v = (case v of JStr s \<Rightarrow> s \<in> set xs | _ \<Rightarrow> False)"

text \<open>
  \<open>Math.max(1, Math.min(10, confidence || 5))\<close>: \<open>NaN\<close> and 0 fall back to 5.
\<close>

definition clampConfidence :: "int option \<Rightarrow> int" where
  "clampConfidence confidence =
     max 1 (min 10 (case confidence of None \<Rightarrow> 5 | Some c \<Rightarrow> if c = 0 then 5 else c))"

definition confidenceOutOfRange :: "int option \<Rightarrow> bool" where
  "confidenceOutOfRange confidence =
     (case confidence of None \<Rightarrow> True | Some c \<Rightarrow> c < 1 \<or> c > 10)"

text \<open>
  The date checks on time values: \<open>predDate > new Date()\<close>,
  \<open>targetDate && isNaN(targetDate.getTime())\<close> and \<open>targetDate && targetDate <= predDate\<close>,
  where \<open>targetDate\<close> is \<open>null\<close> (here \<open>None\<close>) when no target date was given.  A
  comparison with an invalid date is false.
\<close>

definition inFuture :: "int option \<Rightarrow> int \<Rightarrow> bool" where
  "inFuture predDate now = (case predDate of None \<Rightarrow> False | Some p \<Rightarrow> p > now)"

definition invalidTarget :: "int option option \<Rightarrow> bool" where
  "invalidTarget targetDate = (targetDate = Some None)"

definition notAfter :: "int option option \<Rightarrow> int option \<Rightarrow> bool" where
  "notAfter targetDate predDate =
     (case targetDate of
        Some (Some t) \<Rightarrow> (case predDate of None \<Rightarrow> False | Some p \<Rightarrow> t \<le> p)
      | _ \<Rightarrow> False)"

text \<open>\<open>target_date ? new Date(target_date) : null\<close>.\<close>

definition targetDateOf :: "platform \<Rightarrow> jsval \<Rightarrow> int option option" where
  "targetDateOf P target_date = (if truthy target_date then Some (newDate P target_date) else None)"

text \<open>The prediction branch.  \<open>now\<close> is the time value of \<open>new Date()\<close>.\<close>

definition predictionSteps ::
  "platform \<Rightarrow> int \<Rightarrow> jsobj \<Rightarrow> (vstate \<Rightarrow> jsError + vstate) list" where
  "predictionSteps P now data =
     (let predictor_name = data ''predictor_name'';
          prediction_text = data ''prediction_text'';
          predicted_date = data ''predicted_date'';
          target_date = data ''target_date'';
          target_description = data ''target_description'';
          category = data ''category'';
          confidence_level = data ''confidence_level'';
          source_url = data ''source_url'';
          notes = data ''notes'';
          predDate = newDate P predicted_date;
          targetDate = targetDateOf P target_date;
          confidence = parseInt confidence_level
      in [requireTrimmed predictor_name ''Predictor name is required'',
          requireTrimmed prediction_text ''Prediction text is required'',
          always (pushIf (\<not> truthy predicted_date) ''Predicted date is required''),
          sanitizeInto ''predictor_name'' predictor_name PREDICTOR_NAME_MAX ''Predictor name'',
          sanitizeInto ''prediction_text'' prediction_text PREDICTION_TEXT_MAX ''Prediction text'',
          sanitizeInto ''target_description'' target_description DESCRIPTION_MAX
            ''Target description'',
          sanitizeInto ''notes'' notes NOTES_MAX ''Notes'',
          always (pushIf (predDate = None) ''Invalid predicted date''),
          always (pushIf (inFuture predDate now) ''Predicted date cannot be in the future''),
          always (pushIf (invalidTarget targetDate) ''Invalid target date''),
          always (pushIf (notAfter targetDate predDate)
            ''Target date must be after predicted date''),
          always (assign ''predicted_date'' predicted_date),
          always (assign ''target_date'' target_date),
          always (assign ''category''
            (if includesStr validCategories category then category else JStr ''general'')),
          always (pushIf (confidenceOutOfRange confidence)
            ''Confidence level must be between 1 and 10''),
          always (assign ''confidence_level'' (JNum (clampConfidence confidence))),
          always (if truthy source_url \<and> \<not> validateURL P source_url
                  then push ''Invalid source URL''
                  else assign ''source_url'' source_url)])"

text \<open>The verification branch.\<close>

definition verificationSteps :: "platform \<Rightarrow> jsobj \<Rightarrow> (vstate \<Rightarrow> jsError + vstate) list" where
  "verificationSteps P data =
     (let outcome = data ''outcome'';
          outcome_description = data ''outcome_description'';
          evidence_url = data ''evidence_url'';
          verified_by = data ''verified_by'';
          confidence_score = data ''confidence_score'';
          notes = data ''notes'';
          confidence = parseInt confidence_score
      in [always (pushIf (\<not> truthy outcome) ''Outcome is required''),
          requireTrimmed outcome_description ''Outcome description is required'',
          requireTrimmed verified_by ''Verified by is required'',
          sanitizeInto ''outcome_description'' outcome_description DESCRIPTION_MAX
            ''Outcome description'',
          sanitizeInto ''verified_by'' verified_by PREDICTOR_NAME_MAX ''Verified by'',
          sanitizeInto ''notes'' notes NOTES_MAX ''Verification notes'',
          always (pushIf (\<not> includesStr validOutcomes outcome) ''Invalid outcome value''),
          always (assign ''outcome'' outcome),
          always (pushIf (confidenceOutOfRange confidence)
            ''Confidence score must be between 1 and 10''),
          always (assign ''confidence_score'' (JNum (clampConfidence confidence))),
          always (if truthy evidence_url \<and> \<not> validateURL P evidence_url
                  then push ''Invalid evidence URL''
                  else assign ''evidence_url'' evidence_url)])"

datatype inputType = Prediction | Verification

record validation =
  isValid :: bool
  errors :: "string list"
  sanitized :: "jsobj option"

text \<open>
  \<open>validateInput(data, type)\<close> for a \<open>data\<close> that is an object (the handlers have read
  fields of the body before they call it).
\<close>

definition validateInput ::
  "platform \<Rightarrow> int \<Rightarrow> jsobj \<Rightarrow> inputType \<Rightarrow> jsError + validation" where
  "validateInput P now data ty =
     (case runSteps
             (case ty of
                Prediction \<Rightarrow> predictionSteps P now data
              | Verification \<Rightarrow> verificationSteps P data)
             ([], \<lambda>k. JUndefined) of
        Inl e \<Rightarrow> Inl e
      | Inr (errs, obj) \<Rightarrow>
          Inr \<lparr>isValid = (length errs = 0),
               errors = errs,
               sanitized = (if length errs = 0 then Some obj else None)\<rparr>)"

subsection \<open>The violations of a body, rule by rule\<close>

text \<open>
  The rules of section 4.2 of the specification as \<open>validateInput\<close> words them, each
  with its message, in the order of the source.  A field is missing when it is absent,
  \<open>null\<close> or a string that trims to nothing, and malicious when it is a string that one
  of the patterns matches.
\<close>

definition violation :: "bool \<Rightarrow> string \<Rightarrow> string list" where
  "violation c msg = (if c then [msg] else [])"

definition missingField :: "jsval \<Rightarrow> bool" where
  "missingField v =
     (case v of JUndefined \<Rightarrow> True | JNull \<Rightarrow> True | JStr s \<Rightarrow> trim s = [] | _ \<Rightarrow> False)"

definition maliciousField :: "jsval \<Rightarrow> bool" where
  "maliciousField v =
     (case v of JStr s \<Rightarrow> list_ex (\<lambda>pattern. pattern s) SUSPICIOUS_PATTERNS | _ \<Rightarrow> False)"

definition malicious :: "string \<Rightarrow> string" where
  "malicious fieldName = fieldName @ '' contains potentially malicious content''"

definition predictionViolations :: "platform \<Rightarrow> int \<Rightarrow> jsobj \<Rightarrow> string list" where
  "predictionViolations P now data =
     violation (missingField (data ''predictor_name'')) ''Predictor name is required''
     @ violation (missingField (data ''prediction_text'')) ''Prediction text is required''
     @ violation (\<not> truthy (data ''predicted_date'')) ''Predicted date is required''
     @ violation (maliciousField (data ''predictor_name'')) (malicious ''Predictor name'')
     @ violation (maliciousField (data ''prediction_text'')) (malicious ''Prediction text'')
     @ violation (maliciousField (data ''target_description'')) (malicious ''Target description'')
     @ violation (maliciousField (data ''notes'')) (malicious ''Notes'')
     @ violation (newDate P (data ''predicted_date'') = None) ''Invalid predicted date''
     @ violation (inFuture (newDate P (data ''predicted_date'')) now)
         ''Predicted date cannot be in the future''
     @ violation (invalidTarget (targetDateOf P (data ''target_date''))) ''Invalid target date''
     @ violation (notAfter (targetDateOf P (data ''target_date''))
                    (newDate P (data ''predicted_date'')))
         ''Target date must be after predicted date''
     @ violation (confidenceOutOfRange (parseInt (data ''confidence_level'')))
         ''Confidence level must be between 1 and 10''
     @ violation (truthy (data ''source_url'') \<and> \<not> validateURL P (data ''source_url''))
         ''Invalid source URL''"

definition verificationViolations :: "platform \<Rightarrow> jsobj \<Rightarrow> string list" where
  "verificationViolations P data =
     violation (\<not> truthy (data ''outcome'')) ''Outcome is required''
     @ violation (missingField (data ''outcome_description'')) ''Outcome description is required''
     @ violation (missingField (data ''verified_by'')) ''Verified by is required''
     @ violation (maliciousField (data ''outcome_description'')) (malicious ''Outcome description'')
     @ violation (maliciousField (data ''verified_by'')) (malicious ''Verified by'')
     @ violation (maliciousField (data ''notes'')) (malicious ''Verification notes'')
     @ violation (\<not> includesStr validOutcomes (data ''outcome'')) ''Invalid outcome value''
     @ violation (confidenceOutOfRange (parseInt (data ''confidence_score'')))
         ''Confidence score must be between 1 and 10''
     @ violation (truthy (data ''evidence_url'') \<and> \<not> validateURL P (data ''evidence_url''))
         ''Invalid evidence URL''"

definition violations :: "platform \<Rightarrow> int \<Rightarrow> jsobj \<Rightarrow> inputType \<Rightarrow> string list" where
  "violations P now data ty =
     (case ty of
        Prediction \<Rightarrow> predictionViolations P now data
      | Verification \<Rightarrow> verificationViolations P data)"

subsection \<open>What \<open>validateInput\<close> returns, in one piece\<close>

text \<open>
  The values on which a statement of \<open>validateInput\<close> throws: \<open>v?.trim()\<close> on a
  boolean or a number, and \<open>sanitizeString\<close> on a truthy value that is no string.
\<close>

definition notTrimmable :: "jsval \<Rightarrow> bool" where
  "notTrimmable v = (case v of JBool b \<Rightarrow> True | JNum n \<Rightarrow> True | _ \<Rightarrow> False)"

definition notSanitizable :: "jsval \<Rightarrow> bool" where
  "notSanitizable v = (truthy v \<and> (case v of JStr s \<Rightarrow> False | _ \<Rightarrow> True))"

definition predictionThrows :: "jsobj \<Rightarrow> bool" where
  "predictionThrows data =
     (notTrimmable (data ''predictor_name'') \<or> notTrimmable (data ''prediction_text'')
      \<or> notSanitizable (data ''target_description'') \<or> notSanitizable (data ''notes''))"

definition verificationThrows :: "jsobj \<Rightarrow> bool" where
  "verificationThrows data =
     (notTrimmable (data ''outcome_description'') \<or> notTrimmable (data ''verified_by'')
      \<or> notSanitizable (data ''notes''))"

text \<open>The string that \<open>sanitizeString\<close> returns for a value it accepts.\<close>

definition cleaned :: "nat \<Rightarrow> jsval \<Rightarrow> string" where
  "cleaned maxLength v =
     (case v of
        JStr s \<Rightarrow> if maliciousField v then [] else escapeHtml (substring0 maxLength (trim s))
      | _ \<Rightarrow> [])"

text \<open>The \<open>sanitized\<close> object of a body without violations.\<close>

definition predictionSanitized :: "jsobj \<Rightarrow> jsobj" where
  "predictionSanitized data =
     (\<lambda>k. JUndefined)
       (''predictor_name'' := JStr (cleaned PREDICTOR_NAME_MAX (data ''predictor_name'')),
        ''prediction_text'' := JStr (cleaned PREDICTION_TEXT_MAX (data ''prediction_text'')),
        ''target_description'' := JStr (cleaned DESCRIPTION_MAX (data ''target_description'')),
        ''notes'' := JStr (cleaned NOTES_MAX (data ''notes'')),
        ''predicted_date'' := data ''predicted_date'',
        ''target_date'' := data ''target_date'',
        ''category'' :=
          (if includesStr validCategories (data ''category'') then data ''category''
           else JStr ''general''),
        ''confidence_level'' := JNum (clampConfidence (parseInt (data ''confidence_level''))),
        ''source_url'' := data ''source_url'')"

definition verificationSanitized :: "jsobj \<Rightarrow> jsobj" where
  "verificationSanitized data =
     (\<lambda>k. JUndefined)
       (''outcome_description'' := JStr (cleaned DESCRIPTION_MAX (data ''outcome_description'')),
        ''verified_by'' := JStr (cleaned PREDICTOR_NAME_MAX (data ''verified_by'')),
        ''notes'' := JStr (cleaned NOTES_MAX (data ''notes'')),
        ''outcome'' := data ''outcome'',
        ''confidence_score'' := JNum (clampConfidence (parseInt (data ''confidence_score''))),
        ''evidence_url'' := data ''evidence_url'')"

definition outcomeOf :: "bool \<Rightarrow> string list \<Rightarrow> jsobj \<Rightarrow> jsError + validation" where
  "outcomeOf throws errs obj =
     (if throws then Inl TypeError
      else Inr \<lparr>isValid = (errs = []), errors = errs,
                sanitized = (if errs = [] then Some obj else None)\<rparr>)"

text \<open>
  The dates of a body are in order when the predicted date is a valid date not after
  \<open>now\<close> and the target date, when one is given (a truthy value), is a valid date
  strictly after the predicted date.
\<close>

definition datesInOrder :: "platform \<Rightarrow> int \<Rightarrow> jsobj \<Rightarrow> bool" where
  "datesInOrder P now data =
     (case newDate P (data ''predicted_date'') of
        None \<Rightarrow> False
      | Some p \<Rightarrow>
          p \<le> now \<and>
          (if truthy (data ''target_date'')
           then (case newDate P (data ''target_date'') of None \<Rightarrow> False | Some t \<Rightarrow> p < t)
           else True))"

section \<open>The database\<close>

text \<open>
  The tables of the schema that the API reads and writes.  A cell holds \<open>NULL\<close>, an
  integer or a text.  The timestamps that default to \<open>CURRENT_TIMESTAMP\<close> are texts.
\<close>

datatype sqlval = SNull | SInt int | SText string

record prediction_row =
  p_id :: int
  predictor_name :: sqlval
  prediction_text :: sqlval
  predicted_date :: sqlval
  target_date :: sqlval
  target_description :: sqlval
  category :: sqlval
  confidence_level :: sqlval
  source_url :: sqlval
  p_notes :: sqlval
  created_at :: string
  updated_at :: string

record verification_row =
  v_id :: int
  prediction_id :: sqlval
  outcome :: sqlval
  outcome_description :: sqlval
  evidence_url :: sqlval
  verified_by :: sqlval
  verification_date :: string
  confidence_score :: sqlval
  v_notes :: sqlval
  v_created_at :: string

text \<open>
  The state of the database: the two tables and, for each, the largest row id ever
  given (\<open>AUTOINCREMENT\<close>).
\<close>

record db =
  predictions :: "prediction_row list"
  verifications :: "verification_row list"
  seq_predictions :: int
  seq_verifications :: int

text \<open>
  What \<open>bind\<close> makes of a JavaScript value: \<open>null\<close> is \<open>NULL\<close>, a boolean is 1 or 0,
  and \<open>undefined\<close> is refused with an exception.
\<close>

definition bindValue :: "jsval \<Rightarrow> sqlval option" where
  "bindValue v =
     (case v of
        JUndefined \<Rightarrow> None
      | JNull \<Rightarrow> Some SNull
      | JBool b \<Rightarrow> Some (SInt (if b then 1 else 0))
      | JNum n \<Rightarrow> Some (SInt n)
      | JStr s \<Rightarrow> Some (SText s))"

text \<open>
  Column affinity.  A column of type \<open>INTEGER\<close> or \<open>DATE\<close> stores a text that is an
  integer literal as that integer, and any other text as it is (literals with a
  fraction or an exponent are not modelled).  A \<open>TEXT\<close> column stores an integer as its
  decimal numeral.
\<close>

definition isDecDigit :: "char \<Rightarrow> bool" where
  "isDecDigit c = isDigitIn 10 c"

definition intLiteral :: "string \<Rightarrow> int option" where
  "intLiteral s =
     (let neg = (s \<noteq> [] \<and> hd s = CHR ''-'');
          ds = (if s \<noteq> [] \<and> (hd s = CHR ''-'' \<or> hd s = CHR ''+'') then tl s else s)
      in if ds \<noteq> [] \<and> list_all isDecDigit ds
         then Some ((if neg then - 1 else 1) * int (digitsValue 10 ds))
         else None)"

definition numericAffinity :: "sqlval \<Rightarrow> sqlval" where
  "numericAffinity v =
     (case v of
        SText s \<Rightarrow> (case intLiteral s of Some n \<Rightarrow> SInt n | None \<Rightarrow> SText s)
      | _ \<Rightarrow> v)"

fun showNat :: "nat \<Rightarrow> string" where
  "showNat n =
     (if n < 10 then [char_of (48 + n)]
      else showNat (n div 10) @ [char_of (48 + n mod 10)])"

definition showInt :: "int \<Rightarrow> string" where
  "showInt i = (if i < 0 then CHR ''-'' # showNat (nat (- i)) else showNat (nat i))"

definition textAffinity :: "sqlval \<Rightarrow> sqlval" where
  "textAffinity v = (case v of SInt n \<Rightarrow> SText (showInt n) | _ \<Rightarrow> v)"

text \<open>
  Comparison of two stored values, \<open>None\<close> standing for the unknown result that a
  \<open>NULL\<close> operand gives: integers compare by value, texts byte by byte, and an integer
  is less than any text.
\<close>

definition sqlLess :: "sqlval \<Rightarrow> sqlval \<Rightarrow> bool option" where
  "sqlLess a b =
     (case a of
        SNull \<Rightarrow> None
      | SInt x \<Rightarrow> (case b of SNull \<Rightarrow> None | SInt y \<Rightarrow> Some (x < y) | SText t \<Rightarrow> Some True)
      | SText s \<Rightarrow> (case b of SNull \<Rightarrow> None | SInt y \<Rightarrow> Some False | SText t \<Rightarrow> Some (s < t)))"

definition sqlEq :: "sqlval \<Rightarrow> sqlval \<Rightarrow> bool option" where
  "sqlEq a b = (if a = SNull \<or> b = SNull then None else Some (a = b))"

definition newId :: "int \<Rightarrow> int list \<Rightarrow> int" where
  "newId seq ids = foldl max seq ids + 1"

text \<open>\<open>CHECK (c >= 1 AND c <= 10)\<close>: a \<open>NULL\<close> passes, a text is above every integer.\<close>

definition checkOneToTen :: "sqlval \<Rightarrow> bool" where
  "checkOneToTen v =
     (case v of SNull \<Rightarrow> True | SInt n \<Rightarrow> 1 \<le> n \<and> n \<le> 10 | SText s \<Rightarrow> False)"

text \<open>
  \<open>INSERT INTO predictions (...) VALUES (?, ?, ?, ?, ?, ?, ?, ?, ?)\<close> with the nine
  bound values, at the time \<open>ts\<close>.  The result is the new row id and the new state, or
  nothing when a \<open>NOT NULL\<close> or \<open>CHECK\<close> constraint refuses the row (the statement then
  throws).
\<close>

definition insertPrediction :: "string \<Rightarrow> sqlval list \<Rightarrow> db \<Rightarrow> (int \<times> db) option" where
  "insertPrediction ts vals d =
     (case vals of
        [v1, v2, v3, v4, v5, v6, v7, v8, v9] \<Rightarrow>
          (let row =
                 \<lparr>p_id = newId (seq_predictions d) (map p_id (predictions d)),
                  predictor_name = textAffinity v1,
                  prediction_text = textAffinity v2,
                  predicted_date = numericAffinity v3,
                  target_date = numericAffinity v4,
                  target_description = textAffinity v5,
                  category = textAffinity v6,
                  confidence_level = numericAffinity v7,
                  source_url = textAffinity v8,
                  p_notes = textAffinity v9,
                  created_at = ts,
                  updated_at = ts\<rparr>
           in if predictor_name row = SNull \<or> prediction_text row = SNull
                 \<or> predicted_date row = SNull \<or> \<not> checkOneToTen (confidence_level row)
              then None
              else Some (p_id row,
                         d\<lparr>predictions := predictions d @ [row], seq_predictions := p_id row\<rparr>))
      | _ \<Rightarrow> None)"

text \<open>
  \<open>INSERT INTO verifications (...) VALUES (?, ?, ?, ?, ?, ?, ?)\<close>.  Beside the
  \<open>NOT NULL\<close> and \<open>CHECK\<close> constraints, the foreign key asks for a prediction whose id
  is the stored \<open>prediction_id\<close>.
\<close>

definition insertVerification :: "string \<Rightarrow> sqlval list \<Rightarrow> db \<Rightarrow> (int \<times> db) option" where
  "insertVerification ts vals d =
     (case vals of
        [v1, v2, v3, v4, v5, v6, v7] \<Rightarrow>
          (let row =
                 \<lparr>v_id = newId (seq_verifications d) (map v_id (verifications d)),
                  prediction_id = numericAffinity v1,
                  outcome = textAffinity v2,
                  outcome_description = textAffinity v3,
                  evidence_url = textAffinity v4,
                  verified_by = textAffinity v5,
                  verification_date = ts,
                  confidence_score = numericAffinity v6,
                  v_notes = textAffinity v7,
                  v_created_at = ts\<rparr>
           in if prediction_id row = SNull \<or> outcome row = SNull
                 \<or> outcome_description row = SNull
                 \<or> outcome row \<notin> set (map SText validOutcomes)
                 \<or> \<not> checkOneToTen (confidence_score row)
                 \<or> prediction_id row \<notin> set (map (\<lambda>p. SInt (p_id p)) (predictions d))
              then None
              else Some (v_id row,
                         d\<lparr>verifications := verifications d @ [row],
                           seq_verifications := v_id row\<rparr>))
      | _ \<Rightarrow> None)"

text \<open>\<open>SELECT id FROM predictions WHERE id = ?\<close> and its like on verifications.\<close>

definition selectPrediction :: "sqlval \<Rightarrow> db \<Rightarrow> prediction_row option" where
  "selectPrediction v d =
     (case filter (\<lambda>p. sqlEq (SInt (p_id p)) (numericAffinity v) = Some True) (predictions d) of
        [] \<Rightarrow> None
      | p # ps \<Rightarrow> Some p)"

definition selectVerification :: "sqlval \<Rightarrow> db \<Rightarrow> verification_row option" where
  "selectVerification v d =
     (case filter (\<lambda>r. sqlEq (prediction_id r) (numericAffinity v) = Some True)
             (verifications d) of
        [] \<Rightarrow> None
      | r # rs \<Rightarrow> Some r)"

section \<open>Listing predictions with their derived status (both \<open>index\<close> files)\<close>

text \<open>
  A row of the result: the prediction (\<open>p.*\<close>), four columns of the joined verification
  (all \<open>NULL\<close> when there is none), and the \<open>CASE\<close> expression.
\<close>

record listed =
  l_prediction :: prediction_row
  l_outcome :: sqlval
  l_outcome_description :: sqlval
  l_verified_by :: sqlval
  l_verification_date :: sqlval
  verification_status :: string

text \<open>\<open>FROM predictions p LEFT JOIN verifications v ON p.id = v.prediction_id\<close>.\<close>

definition leftJoin :: "db \<Rightarrow> (prediction_row \<times> verification_row option) list" where
  "leftJoin d =
     concat (map (\<lambda>p.
       (case filter (\<lambda>v. sqlEq (SInt (p_id p)) (prediction_id v) = Some True)
               (verifications d) of
          [] \<Rightarrow> [(p, None)]
        | vs \<Rightarrow> map (\<lambda>v. (p, Some v)) vs)) (predictions d))"

text \<open>
  The \<open>CASE\<close> expression; \<open>today\<close> is the text that \<open>date('now')\<close> returns.  The id of a
  joined verification is never \<open>NULL\<close>, so \<open>v.id IS NOT NULL\<close> says that one was joined.
\<close>

definition statusCase :: "string \<Rightarrow> prediction_row \<Rightarrow> verification_row option \<Rightarrow> string" where
  "statusCase today p v =
     (if v \<noteq> None then ''verified''
      else if target_date p \<noteq> SNull \<and> sqlLess (target_date p) (SText today) = Some True
      then ''overdue''
      else ''pending'')"

definition selectRow :: "string \<Rightarrow> prediction_row \<times> verification_row option \<Rightarrow> listed" where
  "selectRow today pv =
     (case pv of (p, v) \<Rightarrow>
        \<lparr>l_prediction = p,
         l_outcome = (case v of None \<Rightarrow> SNull | Some r \<Rightarrow> outcome r),
         l_outcome_description = (case v of None \<Rightarrow> SNull | Some r \<Rightarrow> outcome_description r),
         l_verified_by = (case v of None \<Rightarrow> SNull | Some r \<Rightarrow> verified_by r),
         l_verification_date = (case v of None \<Rightarrow> SNull | Some r \<Rightarrow> SText (verification_date r)),
         verification_status = statusCase today p v\<rparr>)"

text \<open>
  \<open>GET /api/predictions?category=&status=\<close>: the optional \<open>WHERE p.category = ?\<close>, the
  order by \<open>created_at\<close>, latest first (rows of equal time in either order; here the later
  row of the table first), and the filter on the status applied to the result.
\<close>

definition getPredictions :: "string option \<Rightarrow> string option \<Rightarrow> string \<Rightarrow> db \<Rightarrow> listed list" where
  "getPredictions categoryQ statusQ today d =
     (let joined = leftJoin d;
          selected =
            (case categoryQ of
               None \<Rightarrow> joined
             | Some c \<Rightarrow>
                 if c = [] then joined
                 else filter (\<lambda>pv. sqlEq (category (fst pv)) (SText c) = Some True) joined);
          ordered = rev (sort_key (\<lambda>pv. created_at (fst pv)) selected);
          results = map (selectRow today) ordered
      in case statusQ of
           None \<Rightarrow> results
         | Some s \<Rightarrow> if s = [] then results else filter (\<lambda>r. verification_status r = s) results)"

section \<open>The handlers of \<open>part_000\<close>\<close>

text \<open>
  What \<open>await c.req.json()\<close> gives: an exception when the body is no JSON, else the
  parsed value.  Reading a field of \<open>null\<close> throws; a parsed number, string, boolean or
  array has none of the fields the handlers read and stands as an object without them.
\<close>

datatype reqBody = NotJson | JsonNull | JsonObj jsobj

definition jsonError :: "nat \<Rightarrow> string \<Rightarrow> response" where
  "jsonError code msg = Response code [(''error'', JvStr msg)]"

definition orNull :: "jsval \<Rightarrow> jsval" where
  "orNull v = js_or v JNull"

text \<open>The bound values of a statement; one \<open>undefined\<close> among them makes \<open>bind\<close> throw.\<close>

definition bindAll :: "jsval list \<Rightarrow> sqlval list option" where
  "bindAll vs = (if list_all (\<lambda>v. bindValue v \<noteq> None) vs then Some (map (\<lambda>v. the (bindValue v)) vs) else None)"

text \<open>
  \<open>POST /api/predictions\<close>.  \<open>ts\<close> is the database's \<open>CURRENT_TIMESTAMP\<close>.  The result is
  the response and the database as the request leaves it.
\<close>

definition post_predictions ::
  "platform \<Rightarrow> int \<Rightarrow> string \<Rightarrow> reqBody \<Rightarrow> db \<Rightarrow> response \<times> db" where
  "post_predictions P now ts req d =
     (case req of
        NotJson \<Rightarrow> (jsonError 500 ''Failed to add prediction'', d)
      | JsonNull \<Rightarrow> (jsonError 500 ''Failed to add prediction'', d)
      | JsonObj body \<Rightarrow>
          if \<not> validateHoneypot (body ''website'') \<or> \<not> validateHoneypot (body ''email_address'')
             \<or> \<not> validateHoneypot (body ''full_name'')
          then (jsonError 400 ''Invalid request'', d)
          else if \<not> validateCaptcha (body ''captcha_answer'') (body ''captcha_expected'')
          then (jsonError 400 ''Security verification failed'', d)
          else
            (case validateInput P now body Prediction of
               Inl e \<Rightarrow> (jsonError 500 ''Failed to add prediction'', d)
             | Inr validation \<Rightarrow>
                 if \<not> isValid validation
                 then (Response 400
                         [(''error'', JvStr ''Validation failed''),
                          (''details'', JvStrs (errors validation))], d)
                 else
                   (case sanitized validation of
                      None \<Rightarrow> (jsonError 500 ''Failed to add prediction'', d)
                    | Some s \<Rightarrow>
                        (case bindAll
                                [s ''predictor_name'', s ''prediction_text'', s ''predicted_date'',
                                 orNull (s ''target_date''), orNull (s ''target_description''),
                                 s ''category'', s ''confidence_level'',
                                 orNull (s ''source_url''), orNull (s ''notes'')] of
                           None \<Rightarrow> (jsonError 500 ''Failed to add prediction'', d)
                         | Some vals \<Rightarrow>
                             (case insertPrediction ts vals d of
                                None \<Rightarrow> (jsonError 500 ''Failed to add prediction'', d)
                              | Some (rowid, d') \<Rightarrow>
                                  (Response 200
                                     [(''id'', JvNum rowid),
                                      (''message'', JvStr ''Prediction added successfully'')],
                                   d'))))))"

text \<open>
  \<open>POST /api/predictions/:id/verify\<close>.  The id is checked before the body is read.
\<close>

definition badId :: "string \<Rightarrow> bool" where
  "badId predictionId = (case parseIntStr predictionId of None \<Rightarrow> True | Some idNum \<Rightarrow> idNum \<le> 0)"

definition post_verify ::
  "platform \<Rightarrow> int \<Rightarrow> string \<Rightarrow> string \<Rightarrow> reqBody \<Rightarrow> db \<Rightarrow> response \<times> db" where
  "post_verify P now ts predictionId req d =
     (if badId predictionId then (jsonError 400 ''Invalid prediction ID'', d)
      else case req of
        NotJson \<Rightarrow> (jsonError 500 ''Failed to add verification'', d)
      | JsonNull \<Rightarrow> (jsonError 500 ''Failed to add verification'', d)
      | JsonObj body \<Rightarrow>
          if \<not> validateHoneypot (body ''website'') \<or> \<not> validateHoneypot (body ''email_address'')
             \<or> \<not> validateHoneypot (body ''company'')
          then (jsonError 400 ''Invalid request'', d)
          else if \<not> validateCaptcha (body ''captcha_answer'') (body ''captcha_expected'')
          then (jsonError 400 ''Security verification failed'', d)
          else
            (case validateInput P now body Verification of
               Inl e \<Rightarrow> (jsonError 500 ''Failed to add verification'', d)
             | Inr validation \<Rightarrow>
                 if \<not> isValid validation
                 then (Response 400
                         [(''error'', JvStr ''Validation failed''),
                          (''details'', JvStrs (errors validation))], d)
                 else
                   (case sanitized validation of
                      None \<Rightarrow> (jsonError 500 ''Failed to add verification'', d)
                    | Some s \<Rightarrow>
                        (case bindAll
                                [JStr predictionId, s ''outcome'', s ''outcome_description'',
                                 orNull (s ''evidence_url''), s ''verified_by'',
                                 s ''confidence_score'', orNull (s ''notes'')] of
                           None \<Rightarrow> (jsonError 500 ''Failed to add verification'', d)
                         | Some vals \<Rightarrow>
                             (case insertVerification ts vals d of
                                None \<Rightarrow> (jsonError 500 ''Failed to add verification'', d)
                              | Some (rowid, d') \<Rightarrow>
                                  (Response 200
                                     [(''id'', JvNum rowid),
                                      (''message'', JvStr ''Verification added successfully'')],
                                   d'))))))"

section \<open>The middleware and handlers of \<open>security.ts\<close> and \<open>index.tsx\<close>\<close>

text \<open>
  The honeypot middleware: on a POST whose body parses, a truthy \<open>website\<close>, \<open>phone\<close>
  or \<open>address\<close> is answered 403; a body that does not parse, or a field read that
  throws, is left to the handlers.
\<close>

definition validateHoneypot_ts :: "string \<Rightarrow> reqBody \<Rightarrow> mw" where
  "validateHoneypot_ts method req =
     (if method = ''POST'' then
        (case req of
           JsonObj body \<Rightarrow>
             if truthy (body ''website'') \<or> truthy (body ''phone'') \<or> truthy (body ''address'')
             then Respond []
                    (Response 403
                       [(''error'', JvStr ''Bot detected''),
                        (''message'', JvStr ''Automated submission detected'')])
             else Next []
         | _ \<Rightarrow> Next [])
      else Next [])"

text \<open>
  \<open>ToNumber\<close>, nothing standing for \<open>NaN\<close>.  Of the strings, those that trim to nothing
  (0) and to a signed decimal integer are numbers here; a numeral with a fraction, an
  exponent or a radix prefix is not modelled.
\<close>

definition toNumber :: "jsval \<Rightarrow> int option" where
  "toNumber v =
     (case v of
        JUndefined \<Rightarrow> None
      | JNull \<Rightarrow> Some 0
      | JBool b \<Rightarrow> Some (if b then 1 else 0)
      | JNum n \<Rightarrow> Some n
      | JStr s \<Rightarrow> if trim s = [] then Some 0 else intLiteral (trim s))"

text \<open>\<open>v < 1 || v > 10\<close>: a comparison with \<open>NaN\<close> is false.\<close>

definition outsideOneToTen :: "jsval \<Rightarrow> bool" where
  "outsideOneToTen v = (case toNumber v of None \<Rightarrow> False | Some n \<Rightarrow> n < 1 \<or> n > 10)"

text \<open>
  \<open>POST /api/predictions\<close> of \<open>index.tsx\<close>.  The destructuring gives \<open>category\<close> the
  default \<open>general\<close> when the body has none.
\<close>

definition post_predictions_index :: "string \<Rightarrow> reqBody \<Rightarrow> db \<Rightarrow> response \<times> db" where
  "post_predictions_index ts req d =
     (case req of
        NotJson \<Rightarrow> (jsonError 500 ''Failed to add prediction'', d)
      | JsonNull \<Rightarrow> (jsonError 500 ''Failed to add prediction'', d)
      | JsonObj body \<Rightarrow>
          (let predictor_name = body ''predictor_name'';
               prediction_text = body ''prediction_text'';
               predicted_date = body ''predicted_date'';
               target_date = body ''target_date'';
               target_description = body ''target_description'';
               category =
                 (if body ''category'' = JUndefined then JStr ''general'' else body ''category'');
               confidence_level = body ''confidence_level'';
               source_url = body ''source_url'';
               notes = body ''notes''
           in if \<not> truthy predictor_name \<or> \<not> truthy prediction_text \<or> \<not> truthy predicted_date
              then (Response 400
                      [(''error'', JvStr ''Missing required fields''),
                       (''message'',
                          JvStr ''Predictor name, prediction text, and predicted date are required'')],
                    d)
              else if truthy confidence_level \<and> outsideOneToTen confidence_level
              then (Response 400
                      [(''error'', JvStr ''Invalid confidence level''),
                       (''message'', JvStr ''Confidence level must be between 1 and 10'')],
                    d)
              else
                (case bindAll
                        [predictor_name, prediction_text, predicted_date, orNull target_date,
                         orNull target_description, category, orNull confidence_level,
                         orNull source_url, orNull notes] of
                   None \<Rightarrow> (jsonError 500 ''Failed to add prediction'', d)
                 | Some vals \<Rightarrow>
                     (case insertPrediction ts vals d of
                        None \<Rightarrow> (jsonError 500 ''Failed to add prediction'', d)
                      | Some (rowid, d') \<Rightarrow>
                          (Response 200
                             [(''id'', JvNum rowid),
                              (''message'', JvStr ''Prediction added successfully'')],
                           d')))))"

text \<open>
  The checks of the verification body in \<open>index.tsx\<close>, in their order: the first that
  fails gives the 400 answer.
\<close>

definition verifyBodyError :: "jsobj \<Rightarrow> response option" where
  "verifyBodyError body =
     (if \<not> truthy (body ''outcome'') \<or> \<not> truthy (body ''outcome_description'')
         \<or> \<not> truthy (body ''verified_by'')
      then Some (Response 400
                   [(''error'', JvStr ''Missing required fields''),
                    (''message'', JvStr ''Outcome, description, and verifier name are required'')])
      else if \<not> includesStr validOutcomes (body ''outcome'')
      then Some (Response 400
                   [(''error'', JvStr ''Invalid outcome''),
                    (''message'',
                       JvStr (''Outcome must be one of: ''
                         @ ''correct, incorrect, partially_correct, too_early, unprovable''))])
      else if truthy (body ''confidence_score'') \<and> outsideOneToTen (body ''confidence_score'')
      then Some (Response 400
                   [(''error'', JvStr ''Invalid confidence score''),
                    (''message'', JvStr ''Confidence score must be between 1 and 10'')])
      else None)"

definition post_verify_index :: "string \<Rightarrow> string \<Rightarrow> reqBody \<Rightarrow> db \<Rightarrow> response \<times> db" where
  "post_verify_index ts predictionId req d =
     (if badId predictionId then (jsonError 400 ''Invalid prediction ID'', d)
      else case req of
        NotJson \<Rightarrow> (jsonError 500 ''Failed to add verification'', d)
      | JsonNull \<Rightarrow> (jsonError 500 ''Failed to add verification'', d)
      | JsonObj body \<Rightarrow>
          (case verifyBodyError body of
             Some r \<Rightarrow> (r, d)
           | None \<Rightarrow>
               if selectPrediction (SText predictionId) d = None
               then (jsonError 404 ''Prediction not found'', d)
               else if selectVerification (SText predictionId) d \<noteq> None
               then (jsonError 400 ''Prediction already verified'', d)
               else
                 (case bindAll
                         [JStr predictionId, body ''outcome'', body ''outcome_description'',
                          orNull (body ''evidence_url''), body ''verified_by'',
                          orNull (body ''confidence_score''), orNull (body ''notes'')] of
                    None \<Rightarrow> (jsonError 500 ''Failed to add verification'', d)
                  | Some vals \<Rightarrow>
                      (case insertVerification ts vals d of
                         None \<Rightarrow> (jsonError 500 ''Failed to add verification'', d)
                       | Some (rowid, d') \<Rightarrow>
                           (Response 200
                              [(''id'', JvNum rowid),
                               (''message'', JvStr ''Verification added successfully'')],
                            d')))))"


section \<open>Notions used to state the properties\<close>

text \<open>A verification row exists for a prediction.\<close>

definition hasVerification :: "db \<Rightarrow> prediction_row \<Rightarrow> bool" where
  "hasVerification d p = (\<exists>v \<in> set (verifications d). prediction_id v = SInt (p_id p))"

text \<open>
  Calendar dates, as year, month and day, and their order; it is the order in which the
  days come, and makes no reference to how a date is written or stored.
\<close>

type_synonym civil = "nat \<times> nat \<times> nat"

definition calendarDate :: "civil \<Rightarrow> bool" where
  "calendarDate a =
     (case a of (y, m, d) \<Rightarrow> y < 10000 \<and> 1 \<le> m \<and> m \<le> 12 \<and> 1 \<le> d \<and> d \<le> 31)"

definition dateBefore :: "civil \<Rightarrow> civil \<Rightarrow> bool" where
  "dateBefore a b =
     (case a of (y, m, d) \<Rightarrow>
        (case b of (y', m', d') \<Rightarrow> y < y' \<or> y = y' \<and> (m < m' \<or> m = m' \<and> d < d')))"

text \<open>
  The text \<open>YYYY-MM-DD\<close> of a calendar date, as the form's date inputs send it and
  \<open>date('now')\<close> returns it.
\<close>

definition digitChar :: "nat \<Rightarrow> char" where
  "digitChar n = char_of (48 + n mod 10)"

definition pad2 :: "nat \<Rightarrow> string" where
  "pad2 n = [digitChar (n div 10), digitChar n]"

definition pad4 :: "nat \<Rightarrow> string" where
  "pad4 n = pad2 (n div 100) @ pad2 (n mod 100)"

definition isoDate :: "nat \<Rightarrow> nat \<Rightarrow> nat \<Rightarrow> string" where
  "isoDate y m d = pad4 y @ ''-'' @ pad2 m @ ''-'' @ pad2 d"

definition isoText :: "civil \<Rightarrow> string" where
  "isoText a = (case a of (y, m, d) \<Rightarrow> isoDate y m d)"

text \<open>
  For a well-formed id \<open>n\<close>: a prediction with that id exists, and a verification of it
  exists.
\<close>

definition predictionExists :: "db \<Rightarrow> int \<Rightarrow> bool" where
  "predictionExists d n = (\<exists>p \<in> set (predictions d). p_id p = n)"

definition verificationExists :: "db \<Rightarrow> int \<Rightarrow> bool" where
  "verificationExists d n = (\<exists>v \<in> set (verifications d). prediction_id v = SInt n)"

section \<open>Example requests and database states\<close>

definition examplePlatform :: platform where
  "examplePlatform =
     \<lparr>dateParse =
        (\<lambda>s. if s = ''2020-01-01'' then Some 1577836800000
             else if s = ''2030-12-31'' then Some 1924905600000
             else if s = ''2999-01-01'' then Some 32472144000000
             else if s = ''1999-01-01'' then Some 915148800000
             else if s = ''12/31/2030'' then Some 1924905600000
             else if s = ''2030'' then Some 1893456000000
             else None),
      urlProtocol = (\<lambda>s. if s = ''https://example.com/a'' then Some ''https:'' else None)\<rparr>"

definition exampleNow :: int where
  "exampleNow = 1793664000000"

definition emptyDb :: db where
  "emptyDb = \<lparr>predictions = [], verifications = [], seq_predictions = 0, seq_verifications = 0\<rparr>"

definition minimalBody :: jsobj where
  "minimalBody =
     (\<lambda>k. JUndefined)
       (''predictor_name'' := JStr ''A'', ''prediction_text'' := JStr ''X'',
        ''predicted_date'' := JStr ''2020-01-01'')"

definition solvedBody :: jsobj where
  "solvedBody = minimalBody(''captcha_answer'' := JStr ''7'', ''captcha_expected'' := JNum 7)"

definition flawedBody :: jsobj where
  "flawedBody = solvedBody(''notes'' := JStr ''<b>x</b>'', ''target_date'' := JStr ''soon'')"

definition goodBody :: jsobj where
  "goodBody =
     solvedBody(''confidence_level'' := JNum 7, ''category'' := JStr ''astrology'',
                ''target_date'' := JStr ''2030-12-31'')"

definition verifyBody :: jsobj where
  "verifyBody =
     (\<lambda>k. JUndefined)
       (''outcome'' := JStr ''correct'', ''outcome_description'' := JStr ''It happened'',
        ''verified_by'' := JStr ''B'')"

definition examplePrediction :: prediction_row where
  "examplePrediction =
     \<lparr>p_id = 1, predictor_name = SText ''A'', prediction_text = SText ''X'',
      predicted_date = SText ''2020-01-01'', target_date = SText ''2024-12-31'',
      target_description = SNull, category = SText ''general'', confidence_level = SNull,
      source_url = SNull, p_notes = SNull, created_at = ''2026-01-01 00:00:00'',
      updated_at = ''2026-01-01 00:00:00''\<rparr>"

definition oneDb :: db where
  "oneDb = emptyDb\<lparr>predictions := [examplePrediction], seq_predictions := 1\<rparr>"

definition futureBody :: jsobj where
  "futureBody =
     solvedBody(''confidence_level'' := JNum 7, ''predicted_date'' := JStr ''2999-01-01'',
                ''target_date'' := JStr ''1999-01-01'')"

definition spamBody :: jsobj where
  "spamBody = goodBody(''website'' := JStr ''http://spam.example'')"

definition emailBody :: jsobj where
  "emailBody = goodBody(''email_address'' := JStr ''bot@spam.example'')"

definition zeroBody :: jsobj where
  "zeroBody = minimalBody(''confidence_level'' := JNum 0)"

definition verifySolved :: jsobj where
  "verifySolved =
     verifyBody(''confidence_score'' := JNum 8, ''captcha_answer'' := JStr ''7'',
                ''captcha_expected'' := JNum 7)"

definition exampleVerification :: verification_row where
  "exampleVerification =
     \<lparr>v_id = 1, prediction_id = SInt 1, outcome = SText ''incorrect'',
      outcome_description = SText ''It did not happen'', evidence_url = SNull,
      verified_by = SText ''C'', verification_date = ''2026-02-01 00:00:00'',
      confidence_score = SNull, v_notes = SNull, v_created_at = ''2026-02-01 00:00:00''\<rparr>"

definition verifiedDb :: db where
  "verifiedDb = oneDb\<lparr>verifications := [exampleVerification], seq_verifications := 1\<rparr>"

text \<open>
  Four predictions: the first is past its target date, the second has none, the third
  has one ahead and a verification, the fourth has one ahead and no verification.
\<close>

definition listDb :: db where
  "listDb =
     \<lparr>predictions =
        [examplePrediction,
         examplePrediction\<lparr>p_id := 2, target_date := SNull, created_at := ''2026-01-02 00:00:00''\<rparr>,
         examplePrediction\<lparr>p_id := 3, target_date := SText ''2030-12-31'',
                            created_at := ''2026-01-03 00:00:00''\<rparr>,
         examplePrediction\<lparr>p_id := 4, target_date := SText ''2026-11-03'',
                            created_at := ''2026-01-04 00:00:00''\<rparr>],
      verifications = [exampleVerification\<lparr>prediction_id := SInt 3\<rparr>],
      seq_predictions = 4, seq_verifications = 1\<rparr>"

text \<open>
  Bodies whose target date, 31 December 2030, is written the American way, and whose
  target is a year alone.
\<close>

definition usBody :: jsobj where
  "usBody = goodBody(''target_date'' := JStr ''12/31/2030'')"

definition yearBody :: jsobj where
  "yearBody = goodBody(''target_date'' := JStr ''2030'')"

subsection \<open>Example runs of the limiter\<close>

definition postAt :: "int \<Rightarrow> request" where
  "postAt t =
     \<lparr>req_endpoint = Some ''/api/predictions'', req_headers = Map.empty,
      req_now = t, req_prune = False\<rparr>"

definition sixPosts :: "request list" where
  "sixPosts = map postAt [0, 1000, 2000, 3000, 4000, 5000]"

definition entryAt5 :: RateLimitEntry where
  "entryAt5 = \<lparr>count = 5, windowStart = 1000, blocked = Some False, blockUntil = None\<rparr>"

definition entryBlocked :: RateLimitEntry where
  "entryBlocked =
     \<lparr>count = 101, windowStart = 1000, blocked = Some True, blockUntil = Some 901000\<rparr>"

section \<open>Properties of the rate limiter\<close>

lemma cfg_window_const: "cfg_window (configFor endpoint) = 60000"
  by (simp add: configFor_def STRICT_ENDPOINTS_def WINDOW_MS_def Let_def split: option.splits)

lemma rateLimiter_pruned:
  "rateLimiter endpoint hdrs now True store
     = rateLimiter endpoint hdrs now False (cleanupRateLimit now store)"
  by (simp add: rateLimiter_def)

lemma steps_unpruned:
  "let key = rateLimitKey endpoint hdrs;
       config = configFor endpoint;
       reply = fst (rateLimiter endpoint hdrs now False store);
       store' = snd (rateLimiter endpoint hdrs now False store)
   in (\<forall>k. k \<noteq> key \<longrightarrow> store' k = store k) \<and>
      (case activeBlock (store key) now of
         Some until \<Rightarrow>
           replyStatus reply = Some 429 \<and>
           replyField reply ''retryAfter'' = Some (JvNum (ceilDiv1000 (until - now))) \<and>
           store' = store
       | None \<Rightarrow>
           (\<exists>e'. store' key = Some e' \<and>
              (case store key of
                 None \<Rightarrow> count e' = 1 \<and> windowStart e' = now
               | Some e \<Rightarrow>
                   if now - windowStart e > cfg_window config
                   then count e' = 1 \<and> windowStart e' = now
                   else count e' = count e + 1 \<and> windowStart e' = windowStart e) \<and>
              (if count e' > cfg_max config then
                 replyStatus reply = Some 429 \<and>
                 (if count e' > 100 then
                    blocked e' = Some True \<and> blockUntil e' = Some (now + 15 * 60 * 1000) \<and>
                    replyField reply ''retryAfter'' = Some (JvNum 900)
                  else
                    replyField reply ''retryAfter''
                      = Some (JvNum (ceilDiv1000 (windowStart e' + cfg_window config - now))))
               else replyStatus reply = None)))"
proof -
  have c900: "BLOCK_DURATION div 1000 = 900"
    by (simp add: BLOCK_DURATION_def)
  show ?thesis
  proof (cases "activeBlock (store (rateLimitKey endpoint hdrs)) now")
    case (Some u)
    then show ?thesis
      unfolding rateLimiter_def Let_def
      by (simp add: replyStatus_def replyField_def field_def)
  next
    case None
    show ?thesis
    proof (cases "store (rateLimitKey endpoint hdrs)")
      case nokey: None
      with None show ?thesis
        unfolding rateLimiter_def Let_def
        by (simp add: replyStatus_def replyField_def field_def advance_def freshEntry_def c900
            SUSPICIOUS_THRESHOLD_def BLOCK_DURATION_def)
    next
      case (Some e)
      with None show ?thesis
        unfolding rateLimiter_def Let_def
        by (simp add: replyStatus_def replyField_def field_def advance_def freshEntry_def c900
            SUSPICIOUS_THRESHOLD_def BLOCK_DURATION_def)
    qed
  qed
qed

text \<open>
  C1.  Every request goes through these steps, on the entry of its client key as the
  (possibly pruned) store holds it.  Entries of other keys are left alone.  If a block is
  set and its end is still ahead, the answer is 429 with the seconds left of the block,
  and the store, so the counter, is unchanged.  Otherwise the key's entry is written:
  with no entry or an expired window (\<open>now - windowStart > window\<close>) it has count 1 and
  the window starts now, else the count is one more and the window start is kept.  If
  the new count exceeds the configured ceiling the answer is 429; beyond 100 the entry
  is also marked blocked until 15 minutes ahead and the hint is those 900 seconds, and
  up to 100 the hint is the seconds left of the window.  A request whose count is within
  the ceiling gets no answer from the limiter: it goes on to the next handler.
\<close>

theorem rateLimiter_steps:
  "let key = rateLimitKey endpoint hdrs;
       store0 = (if prune then cleanupRateLimit now store else store);
       config = configFor endpoint;
       reply = fst (rateLimiter endpoint hdrs now prune store);
       store' = snd (rateLimiter endpoint hdrs now prune store)
   in (\<forall>k. k \<noteq> key \<longrightarrow> store' k = store0 k) \<and>
      (case activeBlock (store0 key) now of
         Some until \<Rightarrow>
           replyStatus reply = Some 429 \<and>
           replyField reply ''retryAfter'' = Some (JvNum (ceilDiv1000 (until - now))) \<and>
           store' = store0
       | None \<Rightarrow>
           (\<exists>e'. store' key = Some e' \<and>
              (case store0 key of
                 None \<Rightarrow> count e' = 1 \<and> windowStart e' = now
               | Some e \<Rightarrow>
                   if now - windowStart e > cfg_window config
                   then count e' = 1 \<and> windowStart e' = now
                   else count e' = count e + 1 \<and> windowStart e' = windowStart e) \<and>
              (if count e' > cfg_max config then
                 replyStatus reply = Some 429 \<and>
                 (if count e' > 100 then
                    blocked e' = Some True \<and> blockUntil e' = Some (now + 15 * 60 * 1000) \<and>
                    replyField reply ''retryAfter'' = Some (JvNum 900)
                  else
                    replyField reply ''retryAfter''
                      = Some (JvNum (ceilDiv1000 (windowStart e' + cfg_window config - now))))
               else replyStatus reply = None)))"
proof (cases prune)
  case True
  then have eq:
    "rateLimiter endpoint hdrs now prune store
       = rateLimiter endpoint hdrs now False (cleanupRateLimit now store)"
    "(if prune then cleanupRateLimit now store else store) = cleanupRateLimit now store"
    by (simp_all add: rateLimiter_pruned)
  show ?thesis
    unfolding Let_def eq
    using steps_unpruned[of endpoint hdrs now "cleanupRateLimit now store", unfolded Let_def] .
next
  case False
  then have eq:
    "rateLimiter endpoint hdrs now prune store = rateLimiter endpoint hdrs now False store"
    "(if prune then cleanupRateLimit now store else store) = store"
    by simp_all
  show ?thesis
    unfolding Let_def eq
    using steps_unpruned[of endpoint hdrs now store, unfolded Let_def] .
qed

text \<open>
  The steps at two requests of the client \<open>unknown\<close> to \<open>/api/predictions\<close> (ceiling 5)
  at time 2000: one that finds count 5 in a running window is counted as the sixth and
  rejected with 59 seconds left; one that finds an unexpired block is rejected with the
  899 seconds left of it and is not counted.
\<close>

theorem rateLimiter_steps_witness:
  "activeBlock (((\<lambda>k. None)(''unknown:/api/predictions'' \<mapsto> entryAt5))
       ''unknown:/api/predictions'') 2000 = None
   \<and> replyStatus (fst (rateLimiter (Some ''/api/predictions'') (\<lambda>h. None) 2000 False
        ((\<lambda>k. None)(''unknown:/api/predictions'' \<mapsto> entryAt5)))) = Some 429
   \<and> replyField (fst (rateLimiter (Some ''/api/predictions'') (\<lambda>h. None) 2000 False
        ((\<lambda>k. None)(''unknown:/api/predictions'' \<mapsto> entryAt5)))) ''retryAfter''
       = Some (JvNum 59)
   \<and> map_option count (snd (rateLimiter (Some ''/api/predictions'') (\<lambda>h. None) 2000 False
        ((\<lambda>k. None)(''unknown:/api/predictions'' \<mapsto> entryAt5)))
          ''unknown:/api/predictions'') = Some 6
   \<and> activeBlock (((\<lambda>k. None)(''unknown:/api/predictions'' \<mapsto> entryBlocked))
       ''unknown:/api/predictions'') 2000 = Some 901000
   \<and> replyField (fst (rateLimiter (Some ''/api/predictions'') (\<lambda>h. None) 2000 False
        ((\<lambda>k. None)(''unknown:/api/predictions'' \<mapsto> entryBlocked)))) ''retryAfter''
       = Some (JvNum 899)
   \<and> snd (rateLimiter (Some ''/api/predictions'') (\<lambda>h. None) 2000 False
        ((\<lambda>k. None)(''unknown:/api/predictions'' \<mapsto> entryBlocked)))
       = (\<lambda>k. None)(''unknown:/api/predictions'' \<mapsto> entryBlocked)"
  using rateLimiter_steps[of "Some ''/api/predictions''" "\<lambda>h. None" False 2000
      "(\<lambda>k. None)(''unknown:/api/predictions'' \<mapsto> entryAt5)"]
    rateLimiter_steps[of "Some ''/api/predictions''" "\<lambda>h. None" False 2000
      "(\<lambda>k. None)(''unknown:/api/predictions'' \<mapsto> entryBlocked)"]
  by (auto simp: Let_def rateLimitKey_def clientIP_def header_or_def activeBlock_def
      entryAt5_def entryBlocked_def configFor_def STRICT_ENDPOINTS_def ceilDiv1000_def)

subsection \<open>The retry hint along a run\<close>

lemma storeBefore_mono: "storeBefore t store \<Longrightarrow> t \<le> t' \<Longrightarrow> storeBefore t' store"
  unfolding storeBefore_def by (meson order_trans)

lemma cleanup_before: "storeBefore t store \<Longrightarrow> storeBefore t (cleanupRateLimit now store)"
  unfolding storeBefore_def cleanupRateLimit_def
  by (simp split: option.splits if_splits)

lemma pruned_before:
  "storeBefore t store \<Longrightarrow> storeBefore t (if prune then cleanupRateLimit now store else store)"
  by (simp add: cleanup_before)

lemma advance_before:
  "(\<And>e. entry = Some e \<Longrightarrow> windowStart e \<le> now)
     \<Longrightarrow> windowStart (advance config entry now) \<le> now"
  by (cases entry) (simp_all add: advance_def freshEntry_def)

lemma update_before:
  "storeBefore t store \<Longrightarrow> windowStart e \<le> t \<Longrightarrow> storeBefore t (store(k \<mapsto> e))"
  unfolding storeBefore_def by simp

lemma rateLimiter_store_cases:
  fixes endpoint hdrs now prune store
  defines "s0 \<equiv> (if prune then cleanupRateLimit now store else store)"
    and "key \<equiv> rateLimitKey endpoint hdrs"
  defines "e1 \<equiv> advance (configFor endpoint) (s0 key) now"
  shows "snd (rateLimiter endpoint hdrs now prune store) = s0
       \<or> snd (rateLimiter endpoint hdrs now prune store) = s0(key \<mapsto> e1)
       \<or> snd (rateLimiter endpoint hdrs now prune store)
            = s0(key \<mapsto> e1\<lparr>blocked := Some True, blockUntil := Some (now + BLOCK_DURATION)\<rparr>)"
  unfolding s0_def key_def e1_def rateLimiter_def Let_def
  by (simp split: option.split)

text \<open>A request at or after \<open>t\<close> leaves a store whose windows started by its own time.\<close>

lemma step_before:
  assumes "storeBefore t store" "t \<le> now"
  shows "storeBefore now (snd (rateLimiter endpoint hdrs now prune store))"
proof -
  let ?s0 = "if prune then cleanupRateLimit now store else store"
  let ?key = "rateLimitKey endpoint hdrs"
  let ?e1 = "advance (configFor endpoint) (?s0 ?key) now"
  have s0: "storeBefore now ?s0"
    using assms pruned_before storeBefore_mono by blast
  have e1: "windowStart ?e1 \<le> now"
    using s0 by (intro advance_before) (simp add: storeBefore_def)
  have a: "storeBefore now (?s0(?key \<mapsto> ?e1))"
    using s0 e1 by (rule update_before)
  have b: "storeBefore now
     (?s0(?key \<mapsto> ?e1\<lparr>blocked := Some True, blockUntil := Some (now + BLOCK_DURATION)\<rparr>))"
    using s0 e1 by (intro update_before) simp_all
  from rateLimiter_store_cases[of endpoint hdrs now prune store]
  show ?thesis
  proof (elim disjE)
    assume "snd (rateLimiter endpoint hdrs now prune store) = ?s0"
    then show ?thesis using s0 by simp
  next
    assume "snd (rateLimiter endpoint hdrs now prune store) = ?s0(?key \<mapsto> ?e1)"
    then show ?thesis using a by simp
  next
    assume "snd (rateLimiter endpoint hdrs now prune store)
       = ?s0(?key \<mapsto> ?e1\<lparr>blocked := Some True, blockUntil := Some (now + BLOCK_DURATION)\<rparr>)"
    then show ?thesis using b by simp
  qed
qed

lemma ceil_bound:
  assumes "0 \<le> x" "x \<le> 60000"
  shows "0 \<le> ceilDiv1000 x \<and> ceilDiv1000 x \<le> 60"
proof -
  have "(- x) div 1000 \<le> 0 div 1000"
    using assms by (intro zdiv_mono1) simp_all
  moreover have "(- 60000) div 1000 \<le> (- x) div (1000::int)"
    using assms by (intro zdiv_mono1) simp_all
  ultimately show ?thesis
    unfolding ceilDiv1000_def by simp
qed

lemma advance_window:
  assumes "\<And>e. entry = Some e \<Longrightarrow> windowStart e \<le> now" "0 \<le> cfg_window config"
  shows "0 \<le> windowStart (advance config entry now) + cfg_window config - now
       \<and> windowStart (advance config entry now) + cfg_window config - now \<le> cfg_window config"
  using assms by (cases entry) (auto simp: advance_def freshEntry_def)

lemma step_reply:
  assumes sb: "storeBefore now store"
  shows "(replyField (fst (rateLimiter endpoint hdrs now prune store)) ''error''
            = Some (JvStr ''Rate limit exceeded. Please slow down.'')
          \<longrightarrow> (\<exists>n. replyField (fst (rateLimiter endpoint hdrs now prune store)) ''retryAfter''
                     = Some (JvNum n) \<and> 0 \<le> n \<and> n * 1000 \<le> cfg_window (configFor endpoint)))
       \<and> (replyField (fst (rateLimiter endpoint hdrs now prune store)) ''error''
            = Some (JvStr ''Suspicious activity detected. Access temporarily blocked.'')
          \<longrightarrow> replyField (fst (rateLimiter endpoint hdrs now prune store)) ''retryAfter''
                = Some (JvNum 900))"
proof -
  let ?s0 = "if prune then cleanupRateLimit now store else store"
  let ?key = "rateLimitKey endpoint hdrs"
  let ?cfg = "configFor endpoint"
  let ?e1 = "advance ?cfg (?s0 ?key) now"
  have s0: "storeBefore now ?s0"
    using sb by (rule pruned_before)
  have "0 \<le> windowStart ?e1 + cfg_window ?cfg - now
       \<and> windowStart ?e1 + cfg_window ?cfg - now \<le> cfg_window ?cfg"
    using s0 by (intro advance_window) (simp_all add: storeBefore_def cfg_window_const)
  then have w: "0 \<le> ceilDiv1000 (windowStart ?e1 + cfg_window ?cfg - now)
      \<and> ceilDiv1000 (windowStart ?e1 + cfg_window ?cfg - now) \<le> 60"
    by (intro ceil_bound) (simp_all add: cfg_window_const)
  show ?thesis
  proof (cases "activeBlock (?s0 ?key) now")
    case (Some u)
    then show ?thesis
      unfolding rateLimiter_def Let_def by (simp add: replyField_def field_def)
  next
    case None
    then show ?thesis
      unfolding rateLimiter_def Let_def using w
      by (cases prune)
        (simp_all add: replyField_def field_def cfg_window_const BLOCK_DURATION_def)
  qed
qed

lemma serve_replies:
  assumes "storeBefore t store" "sorted (map req_now reqs)" "\<forall>q \<in> set reqs. t \<le> req_now q"
    and "(q, r) \<in> set (fst (serve reqs store))"
  shows "(replyField r ''error'' = Some (JvStr ''Rate limit exceeded. Please slow down.'')
          \<longrightarrow> (\<exists>n. replyField r ''retryAfter'' = Some (JvNum n) \<and> 0 \<le> n
                  \<and> n * 1000 \<le> cfg_window (configFor (req_endpoint q))))
       \<and> (replyField r ''error''
            = Some (JvStr ''Suspicious activity detected. Access temporarily blocked.'')
          \<longrightarrow> replyField r ''retryAfter'' = Some (JvNum 900))"
  using assms
proof (induction reqs arbitrary: t store)
  case Nil
  then show ?case by simp
next
  case (Cons a reqs)
  let ?step = "rateLimiter (req_endpoint a) (req_headers a) (req_now a) (req_prune a) store"
  have now: "storeBefore (req_now a) store"
    using Cons.prems(1,3) storeBefore_mono by simp
  have next_store: "storeBefore (req_now a) (snd ?step)"
    using Cons.prems(1,3) by (intro step_before[of t]) simp_all
  have later: "\<forall>q \<in> set reqs. req_now a \<le> req_now q"
    using Cons.prems(2) by simp
  from Cons.prems(4)
  have "(q, r) = (a, fst ?step) \<or> (q, r) \<in> set (fst (serve reqs (snd ?step)))"
    by (simp add: case_prod_beta Let_def)
  then show ?case
  proof
    assume "(q, r) = (a, fst ?step)"
    then show ?thesis
      using step_reply[OF now, of "req_endpoint a" "req_headers a" "req_prune a"] by simp
  next
    assume "(q, r) \<in> set (fst (serve reqs (snd ?step)))"
    then show ?thesis
      using Cons.IH[OF next_store _ later] Cons.prems(2) by simp
  qed
qed

lemma empty_before: "storeBefore t Map.empty"
  by (simp add: storeBefore_def)

lemma serve_length: "length (fst (serve reqs store)) = length reqs"
  by (induction reqs arbitrary: store) (simp_all add: case_prod_beta Let_def)

text \<open>
  C2, as amended.  Take any run of the limiters from an empty store under a clock that
  never runs backwards.  A 429 for exceeding the configured ceiling, while the count is
  at most 100, carries a \<open>retryAfter\<close> of between 0 seconds and the window length.  A 429
  given when the count also exceeds 100 carries the length of the block, 900 seconds,
  instead.
\<close>

theorem retryAfter_within_window:
  assumes "sorted (map req_now reqs)"
    and "(q, r) \<in> set (fst (serve reqs Map.empty))"
  shows "(replyField r ''error'' = Some (JvStr ''Rate limit exceeded. Please slow down.'')
          \<longrightarrow> (\<exists>n. replyField r ''retryAfter'' = Some (JvNum n) \<and> 0 \<le> n
                  \<and> n * 1000 \<le> cfg_window (configFor (req_endpoint q))))
       \<and> (replyField r ''error''
            = Some (JvStr ''Suspicious activity detected. Access temporarily blocked.'')
          \<longrightarrow> replyField r ''retryAfter'' = Some (JvNum 900))"
proof (cases reqs)
  case Nil
  then show ?thesis using assms by simp
next
  case (Cons a rest)
  have "\<forall>q \<in> set reqs. req_now a \<le> req_now q"
    using assms(1) Cons by auto
  then show ?thesis
    using serve_replies[OF empty_before assms(1) _ assms(2)] by blast
qed

text \<open>
  Six posts of one client, a second apart: the sixth exceeds the ceiling of 5 and is
  told to retry after the 55 seconds left of the 60-second window.
\<close>

theorem retryAfter_within_window_witness:
  "sorted (map req_now sixPosts)
   \<and> replyField (snd (last (fst (serve sixPosts Map.empty)))) ''error''
       = Some (JvStr ''Rate limit exceeded. Please slow down.'')
   \<and> replyField (snd (last (fst (serve sixPosts Map.empty)))) ''retryAfter''
       = Some (JvNum 55)
   \<and> 55 * 1000 \<le> cfg_window (configFor (req_endpoint (fst (last (fst (serve sixPosts Map.empty))))))"
proof -
  let ?x = "last (fst (serve sixPosts Map.empty))"
  have a: "sorted (map req_now sixPosts)"
    by (simp add: sixPosts_def postAt_def)
  have "fst (serve sixPosts Map.empty) \<noteq> []"
    using serve_length[of sixPosts Map.empty] by (auto simp: sixPosts_def)
  then have b: "(fst ?x, snd ?x) \<in> set (fst (serve sixPosts Map.empty))"
    by simp
  have c: "replyField (snd ?x) ''error'' = Some (JvStr ''Rate limit exceeded. Please slow down.'')"
    by code_simp
  have d: "replyField (snd ?x) ''retryAfter'' = Some (JvNum 55)"
    by code_simp
  from retryAfter_within_window[OF a b] c d
  have "55 * 1000 \<le> cfg_window (configFor (req_endpoint (fst ?x)))"
    by simp
  with a c d show ?thesis by simp
qed

text \<open>
  The claim as stated fails on the suspicious branch: the 101st post of one client
  within a window is answered 429 with \<open>retryAfter\<close> 900 seconds, and the window is 60
  seconds long.
\<close>

theorem retryAfter_exceeds_window:
  "replyStatus (snd (last (fst (serve (replicate 101 (postAt 0)) Map.empty)))) = Some 429
   \<and> replyField (snd (last (fst (serve (replicate 101 (postAt 0)) Map.empty)))) ''retryAfter''
       = Some (JvNum 900)
   \<and> cfg_window (configFor (req_endpoint (postAt 0))) div 1000 = 60"
  by code_simp

subsection \<open>The retry hint of the limiter of \<open>security.ts\<close>\<close>

text \<open>
  There a rejection carries the milliseconds left until the record's reset time.  That
  is within the window when the record was opened by a limiter with this window.  The
  three limiters of \<open>index.tsx\<close> share one store and one key per client, so the POST
  limiter (a window of 10 minutes) can find a record that the global limiter opened for
  15 minutes, and answer with more than its own window.
\<close>

lemma rateLimiter_ts_retryAfter:
  assumes "0 \<le> windowMs config"
    and "\<And>r. store key = Some r \<Longrightarrow> resetTime r \<le> now + windowMs config"
    and "replyStatus (fst (rateLimiter_ts config key now store)) = Some 429"
  shows "\<exists>n. replyField (fst (rateLimiter_ts config key now store)) ''retryAfter'' = Some (JvNum n)
           \<and> 0 \<le> n \<and> n \<le> windowMs config"
proof (cases "store key")
  case None
  with assms show ?thesis
    by (simp add: rateLimiter_ts_def Let_def replyStatus_def replyField_def field_def split: if_splits)
next
  case (Some r)
  with assms(1,3) assms(2)[OF Some] show ?thesis
    by (simp add: rateLimiter_ts_def Let_def replyStatus_def replyField_def field_def split: if_splits)
qed

lemma shared_record_retryAfter:
  "replyField (fst (rateLimiter_ts postRateLimiter ''c'' 1000
      ((\<lambda>k. None)(''c'' \<mapsto> \<lparr>rcount = 5, resetTime = 900000\<rparr>)))) ''retryAfter''
     = Some (JvNum 899000)
   \<and> windowMs postRateLimiter = 600000"
  by (simp add: rateLimiter_ts_def Let_def postRateLimiter_def replyField_def field_def)

section \<open>Properties of the validation\<close>

lemma runSteps_Nil: "runSteps [] st = Inr st"
  by (simp add: runSteps_def)

lemma foldl_Inl: "foldl (\<lambda>acc step. case acc of Inl e \<Rightarrow> Inl e | Inr s \<Rightarrow> step s) (Inl e) steps = Inl e"
  by (induction steps) simp_all

lemma runSteps_Cons:
  "runSteps (step # steps) st = (case step st of Inl e \<Rightarrow> Inl e | Inr s \<Rightarrow> runSteps steps s)"
  by (cases "step st") (simp_all add: runSteps_def foldl_Inl)

lemma runSteps_always: "runSteps (always f # steps) st = runSteps steps (f st)"
  by (simp add: runSteps_Cons always_def)

lemma no_pattern_empty: "\<not> list_ex (\<lambda>pattern. pattern []) SUSPICIOUS_PATTERNS"
  by (simp add: SUSPICIOUS_PATTERNS_def)

lemma requireTrimmed_eq:
  "requireTrimmed v msg st =
     (if notTrimmable v then Inl TypeError
      else Inr (fst st @ violation (missingField v) msg, snd st))"
  by (cases v)
    (auto simp: requireTrimmed_def push_def pushIf_def violation_def missingField_def notTrimmable_def)

lemma sanitizeInto_eq:
  "sanitizeInto k v n name st =
     (if notSanitizable v then Inl TypeError
      else Inr (fst st @ violation (maliciousField v) (malicious name),
                (snd st)(k := JStr (cleaned n v))))"
  by (cases v)
    (auto simp: sanitizeInto_def sanitizeString_def violation_def maliciousField_def malicious_def
      notSanitizable_def cleaned_def no_pattern_empty trim_def substring0_def escapeHtml_def replaceAll_def)

lemma runSteps_require:
  "runSteps (requireTrimmed v msg # steps) st =
     (if notTrimmable v then Inl TypeError
      else runSteps steps (fst st @ violation (missingField v) msg, snd st))"
  by (simp add: runSteps_Cons requireTrimmed_eq)

lemma runSteps_sanitize:
  "runSteps (sanitizeInto k v n name # steps) st =
     (if notSanitizable v then Inl TypeError
      else runSteps steps (fst st @ violation (maliciousField v) (malicious name),
                (snd st)(k := JStr (cleaned n v))))"
  by (simp add: runSteps_Cons sanitizeInto_eq)

lemma pushIf_eq: "pushIf c m st = (fst st @ violation c m, snd st)"
  by (simp add: pushIf_def push_def violation_def)

lemma assign_eq: "assign k v st = (fst st, (snd st)(k := v))"
  by (simp add: assign_def)

lemma push_or_assign_eq: "(if c then push m else assign k v) st = (fst st @ violation c m, if c then snd st else (snd st)(k := v))"
  by (simp add: push_def assign_def violation_def)

lemma violation_Nil: "(violation c m = []) = (\<not> c)"
  by (simp add: violation_def)

lemma notTrimmable_notSanitizable: "\<not> notTrimmable v \<Longrightarrow> \<not> notSanitizable v"
  by (cases v) (simp_all add: notTrimmable_def notSanitizable_def)

text \<open>
  The statements of \<open>validateInput\<close>, run one after the other, throw exactly when one of
  four fields has a type without \<open>trim\<close>, and else leave the violations of the body in
  the \<open>errors\<close> array and the cleaned fields in the \<open>sanitized\<close> object.
\<close>

lemma prediction_run:
  "runSteps (predictionSteps P now data) ([], \<lambda>k. JUndefined) =
     (if predictionThrows data then Inl TypeError
      else Inr (predictionViolations P now data,
                if truthy (data ''source_url'') \<and> \<not> validateURL P (data ''source_url'')
                then (predictionSanitized data)(''source_url'' := JUndefined)
                else predictionSanitized data))"
  unfolding predictionSteps_def Let_def predictionViolations_def predictionThrows_def predictionSanitized_def
  by (auto simp: runSteps_require runSteps_sanitize runSteps_always runSteps_Nil pushIf_eq assign_eq
      push_or_assign_eq notTrimmable_notSanitizable)

lemma verification_run:
  "runSteps (verificationSteps P data) ([], \<lambda>k. JUndefined) =
     (if verificationThrows data then Inl TypeError
      else Inr (verificationViolations P data,
                if truthy (data ''evidence_url'') \<and> \<not> validateURL P (data ''evidence_url'')
                then (verificationSanitized data)(''evidence_url'' := JUndefined)
                else verificationSanitized data))"
  unfolding verificationSteps_def Let_def verificationViolations_def verificationThrows_def
    verificationSanitized_def
  by (auto simp: runSteps_require runSteps_sanitize runSteps_always runSteps_Nil pushIf_eq assign_eq
      push_or_assign_eq notTrimmable_notSanitizable)

lemma prediction_url_ok:
  "predictionViolations P now data = []
     \<Longrightarrow> \<not> (truthy (data ''source_url'') \<and> \<not> validateURL P (data ''source_url''))"
  by (simp add: predictionViolations_def violation_Nil)

lemma verification_url_ok:
  "verificationViolations P data = []
     \<Longrightarrow> \<not> (truthy (data ''evidence_url'') \<and> \<not> validateURL P (data ''evidence_url''))"
  by (simp add: verificationViolations_def violation_Nil)

lemma validateInput_prediction:
  "validateInput P now data Prediction =
     outcomeOf (predictionThrows data) (predictionViolations P now data) (predictionSanitized data)"
  using prediction_url_ok[of P now data]
  by (auto simp: validateInput_def prediction_run outcomeOf_def)

lemma validateInput_verification:
  "validateInput P now data Verification =
     outcomeOf (verificationThrows data) (verificationViolations P data) (verificationSanitized data)"
  using verification_url_ok[of P data]
  by (auto simp: validateInput_def verification_run outcomeOf_def)

subsection \<open>Evaluating the examples\<close>

lemmas example_defs = examplePlatform_def exampleNow_def emptyDb_def minimalBody_def solvedBody_def
  flawedBody_def goodBody_def verifyBody_def examplePrediction_def oneDb_def

lemmas string_defs = trim_def isWhiteSpace_def substring0_def escapeHtml_def replaceAll_def
  SUSPICIOUS_PATTERNS_def toLower_def

lemmas parse_defs = parseIntStr_def Let_def isDigitIn_def digitOf_def digitsValue_def intLiteral_def isDecDigit_def

lemmas validation_defs = predictionThrows_def predictionViolations_def predictionSanitized_def
  verificationThrows_def verificationViolations_def verificationSanitized_def
  notTrimmable_def notSanitizable_def missingField_def maliciousField_def malicious_def violation_def
  newDate_def inFuture_def invalidTarget_def notAfter_def targetDateOf_def confidenceOutOfRange_def
  clampConfidence_def validateURL_def includesStr_def validCategories_def validOutcomes_def cleaned_def

lemma flawed_eval:
  "validateInput examplePlatform exampleNow flawedBody Prediction
     = Inr \<lparr>isValid = False,
            errors = [''Notes contains potentially malicious content'', ''Invalid target date'',
                      ''Confidence level must be between 1 and 10''],
            sanitized = None\<rparr>"
  by (simp add: validateInput_prediction outcomeOf_def example_defs validation_defs string_defs parse_defs)

lemma good_eval:
  "validateInput examplePlatform exampleNow goodBody Prediction
     = Inr \<lparr>isValid = True, errors = [], sanitized = Some (predictionSanitized goodBody)\<rparr>"
  by (simp add: validateInput_prediction outcomeOf_def example_defs validation_defs string_defs parse_defs)

subsection \<open>All violations together, or none\<close>

text \<open>
  C4.  Whenever \<open>validateInput(body, type)\<close> returns, its \<open>errors\<close> list holds the message
  of every rule the body violates, all of them together and in the order of the rules;
  \<open>isValid\<close> is true exactly when the list is empty, and the sanitized object is returned
  exactly when \<open>isValid\<close> is true.  A body that passed the honeypot and CAPTCHA checks
  and is not valid is answered by the POST handlers with one 400 response that carries
  the whole list, and the database is unchanged.
\<close>

theorem validateInput_all_or_nothing:
  assumes "validateInput P now data ty = Inr v"
  shows "(isValid v \<longleftrightarrow> errors v = [])
       \<and> (sanitized v \<noteq> None \<longleftrightarrow> isValid v)
       \<and> errors v = violations P now data ty
       \<and> (ty = Prediction \<and> \<not> isValid v
            \<and> validateHoneypot (data ''website'') \<and> validateHoneypot (data ''email_address'')
            \<and> validateHoneypot (data ''full_name'')
            \<and> validateCaptcha (data ''captcha_answer'') (data ''captcha_expected'')
          \<longrightarrow> post_predictions P now ts (JsonObj data) d
                = (Response 400 [(''error'', JvStr ''Validation failed''),
                                 (''details'', JvStrs (errors v))], d))
       \<and> (ty = Verification \<and> \<not> isValid v \<and> \<not> badId predictionId
            \<and> validateHoneypot (data ''website'') \<and> validateHoneypot (data ''email_address'')
            \<and> validateHoneypot (data ''company'')
            \<and> validateCaptcha (data ''captcha_answer'') (data ''captcha_expected'')
          \<longrightarrow> post_verify P now ts predictionId (JsonObj data) d
                = (Response 400 [(''error'', JvStr ''Validation failed''),
                                 (''details'', JvStrs (errors v))], d))"
proof -
  have shape: "(isValid v \<longleftrightarrow> errors v = []) \<and> (sanitized v \<noteq> None \<longleftrightarrow> isValid v)
      \<and> errors v = violations P now data ty"
    using assms
    by (cases ty)
      (auto simp: validateInput_prediction validateInput_verification outcomeOf_def violations_def
        split: if_splits)
  have p: "ty = Prediction \<Longrightarrow> \<not> isValid v
      \<Longrightarrow> validateHoneypot (data ''website'') \<and> validateHoneypot (data ''email_address'')
            \<and> validateHoneypot (data ''full_name'')
            \<and> validateCaptcha (data ''captcha_answer'') (data ''captcha_expected'')
      \<Longrightarrow> post_predictions P now ts (JsonObj data) d
                = (Response 400 [(''error'', JvStr ''Validation failed''),
                                 (''details'', JvStrs (errors v))], d)"
    using assms by (simp add: post_predictions_def)
  have q: "ty = Verification \<Longrightarrow> \<not> isValid v \<Longrightarrow> \<not> badId predictionId
      \<Longrightarrow> validateHoneypot (data ''website'') \<and> validateHoneypot (data ''email_address'')
            \<and> validateHoneypot (data ''company'')
            \<and> validateCaptcha (data ''captcha_answer'') (data ''captcha_expected'')
      \<Longrightarrow> post_verify P now ts predictionId (JsonObj data) d
                = (Response 400 [(''error'', JvStr ''Validation failed''),
                                 (''details'', JvStrs (errors v))], d)"
    using assms by (simp add: post_verify_def)
  from shape p q show ?thesis by blast
qed

text \<open>
  A body with three violations (a tag in the notes, a target date that is no date, no
  confidence level): all three messages come back, in one 400 response.
\<close>

theorem validateInput_all_or_nothing_witness:
  "validateInput examplePlatform exampleNow flawedBody Prediction
     = Inr \<lparr>isValid = False,
            errors = [''Notes contains potentially malicious content'', ''Invalid target date'',
                      ''Confidence level must be between 1 and 10''],
            sanitized = None\<rparr>
   \<and> violations examplePlatform exampleNow flawedBody Prediction
       = [''Notes contains potentially malicious content'', ''Invalid target date'',
          ''Confidence level must be between 1 and 10'']
   \<and> post_predictions examplePlatform exampleNow ''2026-11-03 00:00:00'' (JsonObj flawedBody) emptyDb
       = (Response 400
            [(''error'', JvStr ''Validation failed''),
             (''details'', JvStrs [''Notes contains potentially malicious content'',
                ''Invalid target date'', ''Confidence level must be between 1 and 10''])],
          emptyDb)"
proof -
  have bot: "validateHoneypot (flawedBody ''website'')" "validateHoneypot (flawedBody ''email_address'')"
    "validateHoneypot (flawedBody ''full_name'')"
    "validateCaptcha (flawedBody ''captcha_answer'') (flawedBody ''captcha_expected'')"
    by code_simp+
  from validateInput_all_or_nothing[OF flawed_eval, of "''2026-11-03 00:00:00''" emptyDb "''1''"] bot
  show ?thesis
    by (simp add: flawed_eval)
qed

subsection \<open>The category\<close>

text \<open>
  C9.  For every prediction body, what \<open>validateInput(body, 'prediction')\<close> reports
  (whether it returns, \<open>isValid\<close>, the \<open>errors\<close> list) is the same whatever the
  \<open>category\<close> field holds; and the sanitized object, when there is one, keeps a
  category that is one of the nine values and has \<open>general\<close> for any other.
\<close>

theorem category_never_rejects:
  "map_sum id (\<lambda>v. (isValid v, errors v)) (validateInput P now (data(''category'' := c)) Prediction)
     = map_sum id (\<lambda>v. (isValid v, errors v)) (validateInput P now data Prediction)
   \<and> (\<forall>v s. validateInput P now data Prediction = Inr v \<and> sanitized v = Some s
          \<longrightarrow> s ''category'' =
                (if includesStr validCategories (data ''category'') then data ''category''
                 else JStr ''general''))"
proof -
  have thr: "predictionThrows (data(''category'' := c)) = predictionThrows data"
    by (simp add: predictionThrows_def)
  have vio: "predictionViolations P now (data(''category'' := c)) = predictionViolations P now data"
    by (simp add: predictionViolations_def)
  have a: "map_sum id (\<lambda>v. (isValid v, errors v)) (validateInput P now (data(''category'' := c)) Prediction)
     = map_sum id (\<lambda>v. (isValid v, errors v)) (validateInput P now data Prediction)"
    by (simp add: validateInput_prediction outcomeOf_def thr vio)
  have b: "\<forall>v s. validateInput P now data Prediction = Inr v \<and> sanitized v = Some s
          \<longrightarrow> s ''category'' =
                (if includesStr validCategories (data ''category'') then data ''category''
                 else JStr ''general'')"
    by (auto simp: validateInput_prediction outcomeOf_def predictionSanitized_def split: if_splits)
  from a b show ?thesis by blast
qed

text \<open>
  A valid body with the category \<open>astrology\<close>, or with the number 5 as its category,
  is valid all the same, and is stored under \<open>general\<close>.
\<close>

theorem category_never_rejects_witness:
  "map_sum id (\<lambda>v. (isValid v, errors v)) (validateInput examplePlatform exampleNow goodBody Prediction)
     = Inr (True, [])
   \<and> goodBody ''category'' = JStr ''astrology''
   \<and> predictionSanitized goodBody ''category'' = JStr ''general''
   \<and> map_sum id (\<lambda>v. (isValid v, errors v))
        (validateInput examplePlatform exampleNow (goodBody(''category'' := JNum 5)) Prediction)
     = Inr (True, [])"
  using category_never_rejects[of examplePlatform exampleNow goodBody "JNum 5"] good_eval
  by (simp add: goodBody_def includesStr_def validCategories_def)

subsection \<open>The CAPTCHA\<close>

text \<open>
  C10.  \<open>validateCaptcha(userAnswer, expectedAnswer)\<close> is true exactly when \<open>parseInt\<close>
  of both is the same number; it is false when either \<open>parseInt\<close> is \<open>NaN\<close>, and so when
  either argument is absent.  In the handlers of \<open>part_000\<close>, a body that is a JSON
  object without \<open>captcha_answer\<close> or \<open>captcha_expected\<close> is answered 400 by the id,
  honeypot or CAPTCHA check, before validation, and nothing is inserted.
\<close>

theorem validateCaptcha_iff:
  "(validateCaptcha userAnswer expectedAnswer
      \<longleftrightarrow> (\<exists>n. parseInt userAnswer = Some n \<and> parseInt expectedAnswer = Some n))
   \<and> (parseInt userAnswer = None \<or> parseInt expectedAnswer = None
        \<longrightarrow> \<not> validateCaptcha userAnswer expectedAnswer)
   \<and> \<not> validateCaptcha JUndefined expectedAnswer
   \<and> \<not> validateCaptcha userAnswer JUndefined
   \<and> (body ''captcha_answer'' = JUndefined \<or> body ''captcha_expected'' = JUndefined
        \<longrightarrow> fst (post_predictions P now ts (JsonObj body) d)
              \<in> {jsonError 400 ''Invalid request'', jsonError 400 ''Security verification failed''}
            \<and> snd (post_predictions P now ts (JsonObj body) d) = d
            \<and> fst (post_verify P now ts predictionId (JsonObj body) d)
              \<in> {jsonError 400 ''Invalid prediction ID'', jsonError 400 ''Invalid request'',
                  jsonError 400 ''Security verification failed''}
            \<and> snd (post_verify P now ts predictionId (JsonObj body) d) = d)"
proof -
  have iff: "validateCaptcha userAnswer expectedAnswer
      \<longleftrightarrow> (\<exists>n. parseInt userAnswer = Some n \<and> parseInt expectedAnswer = Some n)"
    by (auto simp: validateCaptcha_def Let_def)
  have no: "\<And>e. \<not> validateCaptcha JUndefined e" "\<And>u. \<not> validateCaptcha u JUndefined"
    by (simp_all add: validateCaptcha_def Let_def)
  have h: "body ''captcha_answer'' = JUndefined \<or> body ''captcha_expected'' = JUndefined
      \<Longrightarrow> \<not> validateCaptcha (body ''captcha_answer'') (body ''captcha_expected'')"
    using no by auto
  have p: "body ''captcha_answer'' = JUndefined \<or> body ''captcha_expected'' = JUndefined
        \<Longrightarrow> fst (post_predictions P now ts (JsonObj body) d)
              \<in> {jsonError 400 ''Invalid request'', jsonError 400 ''Security verification failed''}
            \<and> snd (post_predictions P now ts (JsonObj body) d) = d"
    using h by (simp add: post_predictions_def)
  have q: "body ''captcha_answer'' = JUndefined \<or> body ''captcha_expected'' = JUndefined
        \<Longrightarrow> fst (post_verify P now ts predictionId (JsonObj body) d)
              \<in> {jsonError 400 ''Invalid prediction ID'', jsonError 400 ''Invalid request'',
                  jsonError 400 ''Security verification failed''}
            \<and> snd (post_verify P now ts predictionId (JsonObj body) d) = d"
    using h by (simp add: post_verify_def)
  from iff no p q show ?thesis by (simp add: iff)
qed

text \<open>
  The answer \<open>"7"\<close> matches the expected 7 and \<open>"seven"\<close> does not; a body with no
  CAPTCHA fields is turned away by the CAPTCHA check.
\<close>

theorem validateCaptcha_iff_witness:
  "validateCaptcha (JStr ''7'') (JNum 7)
   \<and> \<not> validateCaptcha (JStr ''seven'') (JNum 7)
   \<and> minimalBody ''captcha_answer'' = JUndefined
   \<and> post_predictions examplePlatform exampleNow ''2026-11-03 00:00:00'' (JsonObj minimalBody) emptyDb
      = (jsonError 400 ''Security verification failed'', emptyDb)"
proof -
  have p: "parseInt (JStr ''7'') = Some 7" "parseInt (JNum 7) = Some 7"
    "parseInt (JStr ''seven'') = None"
    by code_simp+
  have u: "minimalBody ''captcha_answer'' = JUndefined"
    by code_simp
  have h: "fst (post_predictions examplePlatform exampleNow ''2026-11-03 00:00:00''
              (JsonObj minimalBody) emptyDb) \<noteq> jsonError 400 ''Invalid request''"
    by code_simp
  from validateCaptcha_iff[of "JStr ''7''" "JNum 7" minimalBody examplePlatform exampleNow
      "''2026-11-03 00:00:00''" emptyDb "''1''"]
    validateCaptcha_iff[of "JStr ''seven''" "JNum 7" minimalBody examplePlatform exampleNow
      "''2026-11-03 00:00:00''" emptyDb "''1''"] p u h
  show ?thesis
    by (simp add: prod_eq_iff)
qed

subsection \<open>The dates\<close>

lemma not_in_order_violation:
  "\<not> datesInOrder P now data \<Longrightarrow> predictionViolations P now data \<noteq> []"
  by (auto simp: datesInOrder_def predictionViolations_def violation_Nil inFuture_def
      invalidTarget_def notAfter_def targetDateOf_def split: option.splits if_splits)

lemma in_order_if_valid:
  "predictionViolations P now data = [] \<Longrightarrow> datesInOrder P now data"
  using not_in_order_violation by blast

text \<open>
  C7, as amended.  In \<open>part_000\<close> and \<open>part_001\<close>: a body that \<open>validateInput\<close> reports
  valid has its dates in order (the predicted date is a valid date not after now, and a
  target date that is given is a valid date strictly after it); and a JSON object body
  whose dates are not in order is answered 400 by the handler of
  \<open>POST /api/predictions\<close>, with the database unchanged, unless a text field of a
  wrong type makes \<open>validateInput\<close> throw.
\<close>

theorem dates_enforced:
  "(\<forall>v. validateInput P now data Prediction = Inr v \<and> isValid v \<longrightarrow> datesInOrder P now data)
   \<and> (\<not> datesInOrder P now data \<and> \<not> predictionThrows data
        \<longrightarrow> status (fst (post_predictions P now ts (JsonObj data) d)) = 400
            \<and> snd (post_predictions P now ts (JsonObj data) d) = d)"
proof -
  have a: "\<forall>v. validateInput P now data Prediction = Inr v \<and> isValid v \<longrightarrow> datesInOrder P now data"
    using in_order_if_valid[of P now data]
    by (auto simp: validateInput_prediction outcomeOf_def split: if_splits)
  have b: "\<not> datesInOrder P now data \<Longrightarrow> \<not> predictionThrows data
        \<Longrightarrow> status (fst (post_predictions P now ts (JsonObj data) d)) = 400
            \<and> snd (post_predictions P now ts (JsonObj data) d) = d"
    using not_in_order_violation[of P now data]
    by (simp add: post_predictions_def validateInput_prediction outcomeOf_def jsonError_def)
  from a b show ?thesis by blast
qed

text \<open>
  A body predicted in the year 2999 for the year 1999 is answered 400 by the handler of
  \<open>part_000\<close>; the dates of the valid body are in order.
\<close>

theorem dates_enforced_witness:
  "\<not> datesInOrder examplePlatform exampleNow futureBody
   \<and> \<not> predictionThrows futureBody
   \<and> status (fst (post_predictions examplePlatform exampleNow ''2026-11-03 00:00:00''
                  (JsonObj futureBody) emptyDb)) = 400
   \<and> snd (post_predictions examplePlatform exampleNow ''2026-11-03 00:00:00''
            (JsonObj futureBody) emptyDb) = emptyDb
   \<and> datesInOrder examplePlatform exampleNow goodBody"
proof -
  have a: "\<not> datesInOrder examplePlatform exampleNow futureBody" "\<not> predictionThrows futureBody"
    by code_simp+
  from dates_enforced[of examplePlatform exampleNow goodBody "''2026-11-03 00:00:00''" emptyDb]
    good_eval
  have b: "datesInOrder examplePlatform exampleNow goodBody"
    by simp
  from dates_enforced[of examplePlatform exampleNow futureBody "''2026-11-03 00:00:00''" emptyDb] a b
  show ?thesis by simp
qed

text \<open>
  The claim as stated fails on the handler of \<open>index.tsx\<close>, which checks that a
  predicted date is present and nothing else about the dates: the same body, predicted
  in 2999 for 1999, is answered 200 and stored.
\<close>

theorem dates_not_enforced_index:
  "\<not> datesInOrder examplePlatform exampleNow futureBody
   \<and> status (fst (post_predictions_index ''2026-11-03 00:00:00'' (JsonObj futureBody) emptyDb)) = 200
   \<and> map predicted_date
         (predictions (snd (post_predictions_index ''2026-11-03 00:00:00'' (JsonObj futureBody) emptyDb)))
       = [SText ''2999-01-01'']
   \<and> map target_date
         (predictions (snd (post_predictions_index ''2026-11-03 00:00:00'' (JsonObj futureBody) emptyDb)))
       = [SText ''1999-01-01'']"
  by code_simp

section \<open>Properties of the handlers\<close>

subsection \<open>The honeypot\<close>

lemma honeypot_truthy: "validateHoneypot v = (\<not> truthy v)"
  by (cases v) (auto simp: validateHoneypot_def)

text \<open>
  C8, as amended.  In the handlers of \<open>part_000\<close>, a JSON object body with a truthy
  \<open>website\<close>, \<open>email_address\<close> or \<open>full_name\<close> (\<open>company\<close> on a verification) is
  answered 400 with the error \<open>Invalid request\<close> and the database is unchanged.  The
  honeypot middleware of \<open>security.ts\<close> answers 403 to a POST whose body has a truthy
  \<open>website\<close>, \<open>phone\<close> or \<open>address\<close>, and the request does not reach the handler.
\<close>

theorem honeypot_rejected:
  "(truthy (body ''website'') \<or> truthy (body ''email_address'') \<or> truthy (body ''full_name'')
      \<longrightarrow> post_predictions P now ts (JsonObj body) d = (jsonError 400 ''Invalid request'', d))
   \<and> (\<not> badId predictionId
        \<and> (truthy (body ''website'') \<or> truthy (body ''email_address'') \<or> truthy (body ''company''))
      \<longrightarrow> post_verify P now ts predictionId (JsonObj body) d = (jsonError 400 ''Invalid request'', d))
   \<and> (truthy (body ''website'') \<or> truthy (body ''phone'') \<or> truthy (body ''address'')
      \<longrightarrow> replyStatus (validateHoneypot_ts ''POST'' (JsonObj body)) = Some 403)"
  by (auto simp: post_predictions_def post_verify_def honeypot_truthy validateHoneypot_ts_def
      replyStatus_def)

text \<open>A body with the \<open>website\<close> field filled in, at both.\<close>

theorem honeypot_rejected_witness:
  "truthy (spamBody ''website'')
   \<and> post_predictions examplePlatform exampleNow ''2026-11-03 00:00:00'' (JsonObj spamBody) emptyDb
       = (jsonError 400 ''Invalid request'', emptyDb)
   \<and> replyStatus (validateHoneypot_ts ''POST'' (JsonObj spamBody)) = Some 403"
proof -
  have a: "truthy (spamBody ''website'')"
    by code_simp
  from honeypot_rejected[of spamBody examplePlatform exampleNow "''2026-11-03 00:00:00''" emptyDb "''1''"] a
  show ?thesis by simp
qed

text \<open>
  The claim as stated fails: the handler of \<open>part_000\<close> answers a filled-in
  \<open>website\<close> with 400, not 403; and a body with \<open>email_address\<close> filled in passes the
  middleware of \<open>security.ts\<close> and is stored by the handler of \<open>index.tsx\<close>.
\<close>

theorem honeypot_answer_is_400:
  "truthy (spamBody ''website'')
   \<and> status (fst (post_predictions examplePlatform exampleNow ''2026-11-03 00:00:00''
                  (JsonObj spamBody) emptyDb)) = 400
   \<and> truthy (emailBody ''email_address'')
   \<and> validateHoneypot_ts ''POST'' (JsonObj emailBody) = Next []
   \<and> status (fst (post_predictions_index ''2026-11-03 00:00:00'' (JsonObj emailBody) emptyDb)) = 200"
  by code_simp

subsection \<open>Verifying a prediction once\<close>

lemma first_None: "((case xs of [] \<Rightarrow> None | x # ys \<Rightarrow> Some x) = None) = (xs = [])"
  by (cases xs) simp_all

lemma selectPrediction_None:
  "intLiteral pid = Some n \<Longrightarrow> (selectPrediction (SText pid) d = None) = (\<not> predictionExists d n)"
  unfolding selectPrediction_def first_None
  by (auto simp: predictionExists_def numericAffinity_def sqlEq_def filter_empty_conv)

lemma selectVerification_None:
  "intLiteral pid = Some n \<Longrightarrow> (selectVerification (SText pid) d = None) = (\<not> verificationExists d n)"
  unfolding selectVerification_def first_None
  by (auto simp: verificationExists_def numericAffinity_def sqlEq_def filter_empty_conv)

text \<open>
  C6, as amended.  In the handler of \<open>index.tsx\<close>, for a request with a well-formed id
  \<open>n\<close>: a body that fails one of the handler's checks is answered 400 with that check's
  message; a body that passes them is answered 404 when no prediction has the id \<open>n\<close>,
  and 400 when one has and a verification of it exists; and the database changes only
  when a prediction with the id exists and has no verification.
\<close>

theorem verify_checks:
  assumes "\<not> badId predictionId" "intLiteral predictionId = Some n"
  shows "(\<forall>r. verifyBodyError body = Some r
            \<longrightarrow> status r = 400 \<and> post_verify_index ts predictionId (JsonObj body) d = (r, d))
       \<and> (verifyBodyError body = None \<and> \<not> predictionExists d n
            \<longrightarrow> post_verify_index ts predictionId (JsonObj body) d
                  = (jsonError 404 ''Prediction not found'', d))
       \<and> (verifyBodyError body = None \<and> predictionExists d n \<and> verificationExists d n
            \<longrightarrow> post_verify_index ts predictionId (JsonObj body) d
                  = (jsonError 400 ''Prediction already verified'', d))
       \<and> (snd (post_verify_index ts predictionId req d) \<noteq> d
            \<longrightarrow> predictionExists d n \<and> \<not> verificationExists d n)"
proof -
  have a: "\<forall>r. verifyBodyError body = Some r
            \<longrightarrow> status r = 400 \<and> post_verify_index ts predictionId (JsonObj body) d = (r, d)"
    using assms(1)
    by (auto simp: verifyBodyError_def post_verify_index_def split: if_splits)
  have b: "verifyBodyError body = None \<Longrightarrow> \<not> predictionExists d n
            \<Longrightarrow> post_verify_index ts predictionId (JsonObj body) d
                  = (jsonError 404 ''Prediction not found'', d)"
    using assms by (simp add: post_verify_index_def selectPrediction_None)
  have c: "verifyBodyError body = None \<Longrightarrow> predictionExists d n \<Longrightarrow> verificationExists d n
            \<Longrightarrow> post_verify_index ts predictionId (JsonObj body) d
                  = (jsonError 400 ''Prediction already verified'', d)"
    using assms by (simp add: post_verify_index_def selectPrediction_None selectVerification_None)
  have e: "snd (post_verify_index ts predictionId req d) \<noteq> d
            \<Longrightarrow> predictionExists d n \<and> \<not> verificationExists d n"
    using assms
    by (cases req)
      (auto simp: post_verify_index_def selectPrediction_None selectVerification_None
        split: option.splits if_splits)
  from a b c e show ?thesis by blast
qed

text \<open>
  The id 1 with a complete body: 404 on the empty database, 400 when prediction 1 is
  verified already, and an insertion when prediction 1 exists unverified.
\<close>

theorem verify_checks_witness:
  "\<not> badId ''1'' \<and> intLiteral ''1'' = Some 1 \<and> verifyBodyError verifyBody = None
   \<and> \<not> predictionExists emptyDb 1
   \<and> post_verify_index ''2026-11-03 00:00:00'' ''1'' (JsonObj verifyBody) emptyDb
       = (jsonError 404 ''Prediction not found'', emptyDb)
   \<and> predictionExists verifiedDb 1 \<and> verificationExists verifiedDb 1
   \<and> post_verify_index ''2026-11-03 00:00:00'' ''1'' (JsonObj verifyBody) verifiedDb
       = (jsonError 400 ''Prediction already verified'', verifiedDb)
   \<and> snd (post_verify_index ''2026-11-03 00:00:00'' ''1'' (JsonObj verifyBody) oneDb) \<noteq> oneDb
   \<and> predictionExists oneDb 1 \<and> \<not> verificationExists oneDb 1"
proof -
  have a: "\<not> badId ''1''" and b: "intLiteral ''1'' = Some 1"
    by code_simp+
  have c: "verifyBodyError verifyBody = None" "\<not> predictionExists emptyDb 1"
    "predictionExists verifiedDb 1" "verificationExists verifiedDb 1"
    "snd (post_verify_index ''2026-11-03 00:00:00'' ''1'' (JsonObj verifyBody) oneDb) \<noteq> oneDb"
    by code_simp+
  from verify_checks[OF a b, of verifyBody "''2026-11-03 00:00:00''" emptyDb "JsonObj verifyBody"]
    verify_checks[OF a b, of verifyBody "''2026-11-03 00:00:00''" verifiedDb "JsonObj verifyBody"]
    verify_checks[OF a b, of verifyBody "''2026-11-03 00:00:00''" oneDb "JsonObj verifyBody"]
    a b c
  show ?thesis by simp
qed

text \<open>
  The claim as stated fails: with no prediction 1, the handler of \<open>index.tsx\<close> answers
  an empty body with 400 for its missing fields, not 404; and the handler of \<open>part_000\<close>,
  which looks nothing up, answers 200 to a second verification of prediction 1 and
  stores it beside the first.
\<close>

theorem verify_answers_before_lookup:
  "\<not> badId ''1'' \<and> \<not> predictionExists emptyDb 1
   \<and> status (fst (post_verify_index ''2026-11-03 00:00:00'' ''1'' (JsonObj (\<lambda>k. JUndefined)) emptyDb))
       = 400
   \<and> verificationExists verifiedDb 1
   \<and> status (fst (post_verify examplePlatform exampleNow ''2026-11-03 00:00:00'' ''1''
                  (JsonObj verifySolved) verifiedDb)) = 200
   \<and> length (verifications (snd (post_verify examplePlatform exampleNow ''2026-11-03 00:00:00'' ''1''
                  (JsonObj verifySolved) verifiedDb))) = 2"
  by code_simp

subsection \<open>The confidence level\<close>

text \<open>
  C5.  The handler of \<open>index.tsx\<close> at a body whose confidence level is 0: the range
  check is skipped (\<open>0 && ...\<close> is falsy), the request is answered 200 and the prediction
  is stored with no confidence level.  The same body with 11 is answered 400.
\<close>

theorem zero_confidence_accepted:
  "zeroBody ''confidence_level'' = JNum 0
   \<and> status (fst (post_predictions_index ''2026-11-03 00:00:00'' (JsonObj zeroBody) emptyDb)) = 200
   \<and> map confidence_level
        (predictions (snd (post_predictions_index ''2026-11-03 00:00:00'' (JsonObj zeroBody) emptyDb)))
      = [SNull]
   \<and> status (fst (post_predictions_index ''2026-11-03 00:00:00''
                 (JsonObj (zeroBody(''confidence_level'' := JNum 11))) emptyDb)) = 400"
  by code_simp

text \<open>So the answer to a confidence level of 0 is not the 400 of a validation error.\<close>

theorem zero_confidence_accepted_witness:
  "status (fst (post_predictions_index ''2026-11-03 00:00:00'' (JsonObj zeroBody) emptyDb)) \<noteq> 400"
  using zero_confidence_accepted by simp

section \<open>The derived status\<close>

lemma leftJoin_set:
  "(p, v) \<in> set (leftJoin d) \<Longrightarrow>
     p \<in> set (predictions d) \<and>
     (case v of None \<Rightarrow> \<not> hasVerification d p
      | Some r \<Rightarrow> r \<in> set (verifications d) \<and> prediction_id r = SInt (p_id p))"
proof -
  have shape: "\<And>p xs. (case xs of [] \<Rightarrow> [(p, None)] | a # list \<Rightarrow> map (\<lambda>v. (p, Some v)) (a # list))
      = (if xs = [] then [(p, None)] else map (\<lambda>v. (p, Some v)) xs)"
    by (simp split: list.splits)
  assume "(p, v) \<in> set (leftJoin d)"
  then show ?thesis
    unfolding leftJoin_def shape
    by (auto simp: hasVerification_def sqlEq_def filter_empty_conv split: if_splits)
qed

subsection \<open>Dates written \<open>YYYY-MM-DD\<close> compare as dates\<close>

lemma digitChar_less: "(digitChar a < digitChar b) = (a mod 10 < b mod 10)"
proof -
  have "of_char (digitChar a) = 48 + a mod 10" "of_char (digitChar b) = 48 + b mod 10"
    by (simp_all add: digitChar_def)
  then show ?thesis
    by (simp add: less_char_def)
qed

lemma digitChar_eq: "(digitChar a = digitChar b) = (a mod 10 = b mod 10)"
proof
  assume "digitChar a = digitChar b"
  then have "(of_char (digitChar a) :: nat) = of_char (digitChar b)" by simp
  then show "a mod 10 = b mod 10" by (simp add: digitChar_def)
next
  assume "a mod 10 = b mod 10" then show "digitChar a = digitChar b" by (simp add: digitChar_def)
qed

lemma lex2:
  assumes "b < 10" "b' < 10"
  shows "((a::nat) < a' \<or> a = a' \<and> (b::nat) < b') = (10 * a + b < 10 * a' + b')"
  using assms by linarith

lemma lex100:
  assumes "b < 100" "b' < 100"
  shows "((a::nat) < a' \<or> a = a' \<and> (b::nat) < b') = (100 * a + b < 100 * a' + b')"
  using assms by linarith

lemma eq2:
  assumes "b < 10" "b' < 10"
  shows "((a::nat) = a' \<and> (b::nat) = b') = (10 * a + b = 10 * a' + b')"
proof
  assume "a = a' \<and> b = b'" then show "10 * a + b = 10 * a' + b'" by simp
next
  assume e: "10 * a + b = 10 * a' + b'"
  have "(10 * a + b) div 10 = a" "(10 * a' + b') div 10 = a'"
    using assms by simp_all
  with e have "a = a'" by simp
  with e show "a = a' \<and> b = b'" by simp
qed

lemma pad2_less:
  assumes "n < 100" "n' < 100"
  shows "(pad2 n < pad2 n') = (n < n')"
proof -
  have a: "n div 10 mod 10 = n div 10" "n' div 10 mod 10 = n' div 10"
    using assms by simp_all
  have "(pad2 n < pad2 n') = (n div 10 < n' div 10 \<or> n div 10 = n' div 10 \<and> n mod 10 < n' mod 10)"
    by (simp add: pad2_def digitChar_less digitChar_eq a)
  also have "\<dots> = (10 * (n div 10) + n mod 10 < 10 * (n' div 10) + n' mod 10)"
    by (rule lex2) simp_all
  also have "\<dots> = (n < n')" by simp
  finally show ?thesis .
qed

lemma pad2_eq:
  assumes "n < 100" "n' < 100"
  shows "(pad2 n = pad2 n') = (n = n')"
proof -
  have a: "n div 10 mod 10 = n div 10" "n' div 10 mod 10 = n' div 10"
    using assms by simp_all
  have "(pad2 n = pad2 n') = (n div 10 = n' div 10 \<and> n mod 10 = n' mod 10)"
    by (simp add: pad2_def digitChar_eq a)
  also have "\<dots> = (10 * (n div 10) + n mod 10 = 10 * (n' div 10) + n' mod 10)"
    by (rule eq2) simp_all
  also have "\<dots> = (n = n')" by simp
  finally show ?thesis .
qed

lemma append_less:
  "length xs = length xs' \<Longrightarrow> (xs @ ys < xs' @ (ys' :: string)) = (xs < xs' \<or> xs = xs' \<and> ys < ys')"
  by (induction xs xs' rule: list_induct2) auto

lemma append_eq_same_length:
  "length xs = length xs' \<Longrightarrow> (xs @ ys = xs' @ ys') = (xs = xs' \<and> ys = ys')"
  by simp

lemma pad2_length: "length (pad2 n) = 2"
  by (simp add: pad2_def)

lemma pad4_length: "length (pad4 n) = 4"
  by (simp add: pad4_def pad2_length)

lemma pad4_less:
  assumes "n < 10000" "n' < 10000"
  shows "(pad4 n < pad4 n') = (n < n')"
proof -
  have b: "n div 100 < 100" "n' div 100 < 100" "n mod 100 < 100" "n' mod 100 < 100"
    using assms by simp_all
  have "(pad4 n < pad4 n')
      = (n div 100 < n' div 100 \<or> n div 100 = n' div 100 \<and> n mod 100 < n' mod 100)"
    unfolding pad4_def
    by (simp add: append_less pad2_length pad2_less pad2_eq b)
  also have "\<dots> = (100 * (n div 100) + n mod 100 < 100 * (n' div 100) + n' mod 100)"
    by (rule lex100) simp_all
  also have "\<dots> = (n < n')" by simp
  finally show ?thesis .
qed

lemma pad4_eq:
  assumes "n < 10000" "n' < 10000"
  shows "(pad4 n = pad4 n') = (n = n')"
proof -
  have b: "n div 100 < 100" "n' div 100 < 100" "n mod 100 < 100" "n' mod 100 < 100"
    using assms by simp_all
  have "(pad4 n = pad4 n') = (n div 100 = n' div 100 \<and> n mod 100 = n' mod 100)"
    unfolding pad4_def
    by (simp add: pad2_length pad2_eq b)
  also have "\<dots> = (n = n')"
    by (metis mult_div_mod_eq)
  finally show ?thesis .
qed

lemma isoDate_order:
  assumes "y < 10000" "y' < 10000" "m < 100" "m' < 100" "d < 100" "d' < 100"
  shows "(isoDate y m d < isoDate y' m' d')
       = (y < y' \<or> y = y' \<and> (m < m' \<or> m = m' \<and> d < d'))"
  unfolding isoDate_def
  by (simp add: append_less pad4_length pad2_length pad4_less pad4_eq pad2_less pad2_eq assms)

lemma isoDate_example: "isoDate 2026 11 3 = ''2026-11-03''"
  by code_simp

lemma isoText_less:
  assumes "calendarDate a" "calendarDate b"
  shows "(isoText a < isoText b) = dateBefore a b"
proof -
  obtain y m d y' m' d' where ab: "a = (y, m, d)" "b = (y', m', d')"
    by (cases a, cases b) auto
  from assms have "y < 10000" "y' < 10000" "m < 100" "m' < 100" "d < 100" "d' < 100"
    by (auto simp: ab calendarDate_def)
  from isoDate_order[OF this] show ?thesis
    by (simp add: ab isoText_def dateBefore_def)
qed

text \<open>
  Such a text is no number, so the column of the target date, whose affinity is
  numeric, stores it as it is.
\<close>

lemma digitChar_digit: "isDecDigit (digitChar n)"
proof -
  have "\<forall>k \<in> set [0 ..< 10]. isDecDigit (char_of (48 + k))"
    by code_simp
  moreover have "n mod 10 \<in> set [0 ..< 10]"
    by simp
  ultimately show ?thesis
    unfolding digitChar_def by blast
qed

lemma isoDate_stored: "numericAffinity (SText (isoDate y m d)) = SText (isoDate y m d)"
proof -
  have h: "hd (isoDate y m d) = digitChar (y div 100 div 10)"
    by (simp add: isoDate_def pad4_def pad2_def)
  have "of_char (digitChar (y div 100 div 10)) \<noteq> (45 :: nat)"
    "of_char (digitChar (y div 100 div 10)) \<noteq> (43 :: nat)"
    by (simp_all add: digitChar_def)
  then have s: "digitChar (y div 100 div 10) \<noteq> CHR ''-''" "digitChar (y div 100 div 10) \<noteq> CHR ''+''"
    by auto
  have n: "\<not> isDecDigit CHR ''-''"
    by (simp add: isDecDigit_def isDigitIn_def digitOf_def)
  have "\<not> list_all isDecDigit (isoDate y m d)"
    by (simp add: isoDate_def pad4_def pad2_def n)
  then have "intLiteral (isoDate y m d) = None"
    using h s by (simp add: intLiteral_def Let_def)
  then show ?thesis
    by (simp add: numericAffinity_def)
qed

subsection \<open>The status of a listed row\<close>

lemma statusCase_text:
  "statusCase today p None =
     (case target_date p of
        SNull \<Rightarrow> ''pending''
      | SInt n \<Rightarrow> ''overdue''
      | SText s \<Rightarrow> if s < today then ''overdue'' else ''pending'')"
  by (simp add: statusCase_def sqlLess_def split: sqlval.splits)

text \<open>
  C3.  For every row that \<open>GET /api/predictions\<close> returns on the day \<open>today\<close>, whatever
  the filters: the row's prediction is a row of the predictions table (which has no
  status column); its \<open>verification_status\<close> is \<open>verified\<close> if a verification row exists for
  the prediction, whatever its target date; with no verification it is \<open>pending\<close> if the
  prediction has no target date, and if the target date is stored as the text
  \<open>YYYY-MM-DD\<close> of a calendar date it is \<open>overdue\<close> when that date is before today in the
  calendar and \<open>pending\<close> when it is today or later.  With a status filter, every row
  returned has the status asked for.
\<close>

theorem status_is_derived:
  assumes "r \<in> set (getPredictions categoryQ statusQ (isoText today) d)"
    and "calendarDate today"
  shows "l_prediction r \<in> set (predictions d)
       \<and> (hasVerification d (l_prediction r) \<longrightarrow> verification_status r = ''verified'')
       \<and> (\<not> hasVerification d (l_prediction r) \<and> target_date (l_prediction r) = SNull
            \<longrightarrow> verification_status r = ''pending'')
       \<and> (\<forall>target. \<not> hasVerification d (l_prediction r) \<and> calendarDate target
              \<and> target_date (l_prediction r) = SText (isoText target)
            \<longrightarrow> verification_status r
                  = (if dateBefore target today then ''overdue'' else ''pending''))
       \<and> (\<forall>s. statusQ = Some s \<and> s \<noteq> [] \<longrightarrow> verification_status r = s)"
proof -
  from assms(1) obtain p v where pv: "(p, v) \<in> set (leftJoin d)"
    and r: "r = selectRow (isoText today) (p, v)"
    by (auto simp: getPredictions_def Let_def split: option.splits if_splits)
  have j: "p \<in> set (predictions d)" "(v \<noteq> None) = hasVerification d p"
    using leftJoin_set[OF pv] by (auto simp: hasVerification_def split: option.splits)
  have lp: "l_prediction r = p" and st: "verification_status r = statusCase (isoText today) p v"
    by (simp_all add: r selectRow_def)
  have a: "hasVerification d p \<longrightarrow> verification_status r = ''verified''"
    using j by (auto simp: st statusCase_def)
  have n: "\<not> hasVerification d p \<Longrightarrow> verification_status r = statusCase (isoText today) p None"
    using j by (simp add: st)
  have b: "\<not> hasVerification d p \<and> target_date p = SNull \<longrightarrow> verification_status r = ''pending''"
    using n by (simp add: statusCase_text)
  have c: "\<forall>target. \<not> hasVerification d p \<and> calendarDate target
              \<and> target_date p = SText (isoText target)
            \<longrightarrow> verification_status r
                  = (if dateBefore target today then ''overdue'' else ''pending'')"
    using n isoText_less[OF _ assms(2)] by (simp add: statusCase_text)
  have f: "\<forall>s. statusQ = Some s \<and> s \<noteq> [] \<longrightarrow> verification_status r = s"
    using assms(1) by (auto simp: getPredictions_def Let_def split: option.splits if_splits)
  show ?thesis
    using j(1) a b c f by (simp add: lp)
qed

text \<open>
  The list of four predictions on 3 November 2026, latest first: the fourth, whose
  target date is that day, is \<open>pending\<close>; the third, verified though its target date is
  ahead, is \<open>verified\<close>; the second, with no target date, is \<open>pending\<close>; the first, past
  its target date of 31 December 2024, is \<open>overdue\<close>.
\<close>

theorem status_is_derived_witness:
  "calendarDate (2026, 11, 3)
   \<and> map (\<lambda>r. p_id (l_prediction r)) (getPredictions None None (isoText (2026, 11, 3)) listDb)
     = [4, 3, 2, 1]
   \<and> map (\<lambda>r. hasVerification listDb (l_prediction r))
        (getPredictions None None (isoText (2026, 11, 3)) listDb)
     = [False, True, False, False]
   \<and> map (\<lambda>r. target_date (l_prediction r))
        (getPredictions None None (isoText (2026, 11, 3)) listDb)
     = [SText (isoText (2026, 11, 3)), SText (isoText (2030, 12, 31)), SNull,
        SText (isoText (2024, 12, 31))]
   \<and> \<not> dateBefore (2026, 11, 3) (2026, 11, 3)
   \<and> dateBefore (2024, 12, 31) (2026, 11, 3)
   \<and> map verification_status (getPredictions None None (isoText (2026, 11, 3)) listDb)
     = [''pending'', ''verified'', ''pending'', ''overdue'']"
proof -
  let ?rows = "getPredictions None None (isoText (2026, 11, 3)) listDb"
  have t: "calendarDate (2026, 11, 3)" "calendarDate (2024, 12, 31)"
    "\<not> dateBefore (2026, 11, 3) (2026, 11, 3)" "dateBefore (2024, 12, 31) (2026, 11, 3)"
    by (simp_all add: calendarDate_def dateBefore_def)
  have l: "length ?rows = 4"
    by code_simp
  have m: "?rows ! 0 \<in> set ?rows" "?rows ! 1 \<in> set ?rows" "?rows ! 2 \<in> set ?rows"
    "?rows ! 3 \<in> set ?rows"
    using l by simp_all
  have i: "map (\<lambda>r. p_id (l_prediction r)) ?rows = [4, 3, 2, 1]"
    by code_simp
  have h: "map (\<lambda>r. hasVerification listDb (l_prediction r)) ?rows = [False, True, False, False]"
    by code_simp
  have d: "map (\<lambda>r. target_date (l_prediction r)) ?rows
     = [SText (isoText (2026, 11, 3)), SText (isoText (2030, 12, 31)), SNull,
        SText (isoText (2024, 12, 31))]"
    by code_simp
  have e: "?rows = [?rows ! 0, ?rows ! 1, ?rows ! 2, ?rows ! 3]"
    using l by (auto simp: list_eq_iff_nth_eq less_Suc_eq numeral_eq_Suc nth_Cons split: nat.splits)
  have h': "\<not> hasVerification listDb (l_prediction (?rows ! 0))"
    "hasVerification listDb (l_prediction (?rows ! 1))"
    "\<not> hasVerification listDb (l_prediction (?rows ! 2))"
    "\<not> hasVerification listDb (l_prediction (?rows ! 3))"
    by code_simp+
  have d': "target_date (l_prediction (?rows ! 0)) = SText (isoText (2026, 11, 3))"
    "target_date (l_prediction (?rows ! 2)) = SNull"
    "target_date (l_prediction (?rows ! 3)) = SText (isoText (2024, 12, 31))"
    by code_simp+
  from status_is_derived[OF m(1) t(1)] h'(1) d'(1) t
  have s0: "verification_status (?rows ! 0) = ''pending''" by simp
  from status_is_derived[OF m(2) t(1)] h'(2)
  have s1: "verification_status (?rows ! 1) = ''verified''" by blast
  from status_is_derived[OF m(3) t(1)] h'(3) d'(2)
  have s2: "verification_status (?rows ! 2) = ''pending''" by simp
  from status_is_derived[OF m(4) t(1)] h'(4) d'(3) t
  have s3: "verification_status (?rows ! 3) = ''overdue''" by simp
  have "map verification_status ?rows = [''pending'', ''verified'', ''pending'', ''overdue'']"
    by (subst e) (simp only: list.map s0 s1 s2 s3)
  with t i h d show ?thesis by simp
qed

text \<open>
  The claim as stated fails where the stored target date is not written that way.  On
  3 November 2026 a prediction whose target date 31 December 2030 is sent as
  \<open>12/31/2030\<close> passes the validation of \<open>part_001\<close> (its time value is after that of the
  predicted date, and after now), is stored as sent, has no verification, and is listed
  as \<open>overdue\<close>: the database compares the two texts, and \<open>1\<close> comes before \<open>2\<close>.  A target
  sent as \<open>2030\<close> is stored as the integer 2030, which sorts before every text, and is
  listed as \<open>overdue\<close> too.
\<close>

theorem overdue_before_target_date:
  "newDate examplePlatform (usBody ''target_date'') = Some 1924905600000
   \<and> exampleNow < 1924905600000
   \<and> status (fst (post_predictions examplePlatform exampleNow ''2026-11-03 00:00:00''
                 (JsonObj usBody) emptyDb)) = 200
   \<and> map target_date
        (predictions (snd (post_predictions examplePlatform exampleNow ''2026-11-03 00:00:00''
                             (JsonObj usBody) emptyDb)))
     = [SText ''12/31/2030'']
   \<and> verifications (snd (post_predictions examplePlatform exampleNow ''2026-11-03 00:00:00''
                             (JsonObj usBody) emptyDb)) = []
   \<and> map verification_status
        (getPredictions None None ''2026-11-03''
           (snd (post_predictions examplePlatform exampleNow ''2026-11-03 00:00:00''
                   (JsonObj usBody) emptyDb)))
     = [''overdue'']
   \<and> newDate examplePlatform (yearBody ''target_date'') = Some 1893456000000
   \<and> exampleNow < 1893456000000
   \<and> map target_date
        (predictions (snd (post_predictions examplePlatform exampleNow ''2026-11-03 00:00:00''
                             (JsonObj yearBody) emptyDb)))
     = [SInt 2030]
   \<and> map verification_status
        (getPredictions None None ''2026-11-03''
           (snd (post_predictions examplePlatform exampleNow ''2026-11-03 00:00:00''
                   (JsonObj yearBody) emptyDb)))
     = [''overdue'']"
  by code_simp

text \<open>
  A target date sent as \<open>YYYY-MM-DD\<close> is stored as that text, and the prediction is
  listed as \<open>pending\<close> until the day has passed.
\<close>

lemma iso_target_listed:
  "map target_date
     (predictions (snd (post_predictions examplePlatform exampleNow ''2026-11-03 00:00:00''
                          (JsonObj goodBody) emptyDb)))
     = [SText (isoText (2030, 12, 31))]
   \<and> map verification_status
        (getPredictions None None (isoText (2026, 11, 3))
           (snd (post_predictions examplePlatform exampleNow ''2026-11-03 00:00:00''
                   (JsonObj goodBody) emptyDb)))
     = [''pending'']"
  by code_simp

end
